theory Spec2Isabelle
  imports Complex_Main "HOL-Library.Sublist"
begin

section \<open>Python values\<close>

text \<open>
  The items the services pass around come out of \<^verbatim>\<open>json.loads\<close>: \<^verbatim>\<open>None\<close>, a bool, an
  int, a float, a str, a list or a dict with str keys. A str is kept as its UTF-8 bytes; a
  number is kept as the exact value it denotes (every finite float is a rational). The
  non-standard literals \<^verbatim>\<open>NaN\<close> and \<^verbatim>\<open>Infinity\<close> that \<^verbatim>\<open>json.loads\<close> also accepts are left out.
  A dict is an association list in insertion order.
\<close>

datatype pyval =
    PNone
  | PBool bool
  | PInt int
  | PFloat rat
  | PStr string
  | PList "pyval list"
  | PDict "(string \<times> pyval) list"

text \<open>
  The exceptions the modelled code can meet, all subclasses of \<^verbatim>\<open>Exception\<close>.
  \<^verbatim>\<open>RuntimeError\<close> and \<^verbatim>\<open>OtherError\<close> carry their text; \<^verbatim>\<open>OtherError\<close> stands for any
  other subclass of \<^verbatim>\<open>Exception\<close> that a collaborator raises. What \<^verbatim>\<open>except Exception\<close> does
  not catch (\<^verbatim>\<open>KeyboardInterrupt\<close>, \<^verbatim>\<open>SystemExit\<close>) is outside the model, and so are the
  calls of \<^verbatim>\<open>print\<close> and \<^verbatim>\<open>logging\<close>.
\<close>

datatype exn =
    AttributeError
  | TypeError
  | KeyError
  | IndexError
  | JSONDecodeError
  | RuntimeError string
  | OtherError string

text \<open>Truth value testing: \<^verbatim>\<open>None\<close>, \<^verbatim>\<open>False\<close>, zero and empty containers are false.\<close>

fun py_truthy :: "pyval \<Rightarrow> bool" where
  "py_truthy PNone = False"
| "py_truthy (PBool b) = b"
| "py_truthy (PInt i) = (i \<noteq> 0)"
| "py_truthy (PFloat r) = (r \<noteq> 0)"
| "py_truthy (PStr s) = (s \<noteq> [])"
| "py_truthy (PList xs) = (xs \<noteq> [])"
| "py_truthy (PDict kvs) = (kvs \<noteq> [])"

text \<open>
  A Python set holds hashable values up to \<^verbatim>\<open>==\<close>: \<^verbatim>\<open>True == 1 == 1.0\<close>, so bools and
  numbers share one key. Lists and dicts are unhashable.
\<close>

datatype pykey = KNone | KNum rat | KStr string

fun py_hash :: "pyval \<Rightarrow> pykey option" where
  "py_hash PNone = Some KNone"
| "py_hash (PBool b) = Some (KNum (if b then 1 else 0))"
| "py_hash (PInt i) = Some (KNum (of_int i))"
| "py_hash (PFloat r) = Some (KNum r)"
| "py_hash (PStr s) = Some (KStr s)"
| "py_hash (PList xs) = None"
| "py_hash (PDict kvs) = None"

text \<open>\<^verbatim>\<open>x in s\<close> for a set \<^verbatim>\<open>s\<close>: hashing an unhashable \<^verbatim>\<open>x\<close> raises \<^verbatim>\<open>TypeError\<close>.\<close>

definition py_in_set :: "pyval \<Rightarrow> pykey set \<Rightarrow> exn + bool" where
  "py_in_set x s = (case py_hash x of None \<Rightarrow> Inl TypeError | Some k \<Rightarrow> Inr (k \<in> s))"

text \<open>\<^verbatim>\<open>item.get(key)\<close>: \<^verbatim>\<open>None\<close> for a missing key; only a dict has the method.\<close>

fun py_get :: "pyval \<Rightarrow> string \<Rightarrow> exn + pyval" where
  "py_get (PDict kvs) key = Inr (case map_of kvs key of None \<Rightarrow> PNone | Some v \<Rightarrow> v)"
| "py_get _ key = Inl AttributeError"

text \<open>
  \<^verbatim>\<open>item[key] = v\<close> on a dict: an existing key keeps its place, a new key goes last.
  \<^verbatim>\<open>item.update({...})\<close> stores the pairs in their order.
\<close>

fun dict_setitem :: "(string \<times> pyval) list \<Rightarrow> string \<Rightarrow> pyval \<Rightarrow> (string \<times> pyval) list" where
  "dict_setitem [] key v = [(key, v)]"
| "dict_setitem ((k, w) # kvs) key v =
     (if k = key then (key, v) # kvs else (k, w) # dict_setitem kvs key v)"

fun dict_update :: "(string \<times> pyval) list \<Rightarrow> (string \<times> pyval) list \<Rightarrow> (string \<times> pyval) list" where
  "dict_update d [] = d"
| "dict_update d ((key, v) # rest) = dict_update (dict_setitem d key v) rest"

section \<open>Classification engine\<close>

text \<open>
  The two action paths start with an emoji: U+1F534 (red circle) and U+1F7E2 (green circle),
  here as the UTF-8 bytes of the source file.
\<close>

definition red_circle :: string where
  "red_circle = [CHR 0xF0, CHR 0x9F, CHR 0x94, CHR 0xB4]"

definition green_circle :: string where
  "green_circle = [CHR 0xF0, CHR 0x9F, CHR 0x9F, CHR 0xA2]"

text \<open>
  \<^verbatim>\<open>WorkflowService._apply_classification_logic\<close>. \<^verbatim>\<open>pn_match\<close> and \<^verbatim>\<open>name_match\<close> are the
  results of \<^verbatim>\<open>x and x in s\<close>, of which only the truth value is used afterwards.
\<close>

definition apply_classification_logic :: "pyval \<Rightarrow> pykey set \<Rightarrow> pykey set \<Rightarrow> exn + pyval" where
  "apply_classification_logic item item_master_items_pn_set item_master_items_name_set =
    (case py_get item ''part_number'' of Inl e \<Rightarrow> Inl e | Inr pn \<Rightarrow>
     case (if py_truthy pn then py_in_set pn item_master_items_pn_set else Inr False) of
       Inl e \<Rightarrow> Inl e | Inr pn_match \<Rightarrow>
     case py_get item ''material_name'' of Inl e \<Rightarrow> Inl e | Inr nm \<Rightarrow>
     case (if py_truthy nm then py_in_set nm item_master_items_name_set else Inr False) of
       Inl e \<Rightarrow> Inl e | Inr name_match \<Rightarrow>
     case py_get item ''qty'' of Inl e \<Rightarrow> Inl e | Inr qty \<Rightarrow>
     (case item of
       PDict d \<Rightarrow>
         let qty_present = (qty \<noteq> PNone \<and> qty \<noteq> PStr '''');
             d1 = dict_setitem d ''qa_classification_label'' (PStr ''5'');
             d2 = dict_setitem d1 ''qa_confidence_level'' (PStr ''low'');
             d3 = dict_setitem d2 ''reasoning'' (PStr ''No match found'');
             d4 = dict_setitem d3 ''action_path'' (PStr (red_circle @ '' Human Intervention Required''))
         in if pn_match \<and> qty_present then
              Inr (PDict (dict_update d4
                [(''qa_classification_label'', PStr ''1''),
                 (''qa_confidence_level'', PStr ''high''),
                 (''reasoning'', PStr ''Match to BOM & Item Master Data''),
                 (''action_path'', PStr (green_circle @ '' Auto-Register''))]))
            else if \<not> pn_match \<and> name_match then
              Inr (PDict (dict_update d4
                [(''qa_classification_label'', PStr ''4''),
                 (''qa_confidence_level'', PStr ''low''),
                 (''reasoning'', PStr ''Check for text match in master data''),
                 (''action_path'', PStr (red_circle @ '' Human Intervention Required''))]))
            else Inr (PDict d4)
     | _ \<Rightarrow> Inl AttributeError))"

text \<open>Reading a field of what a call returned; \<open>None\<close> when it raised or the key is missing.\<close>

definition result_field :: "exn + pyval \<Rightarrow> string \<Rightarrow> pyval option" where
  "result_field r key = (case r of Inr (PDict d) \<Rightarrow> map_of d key | _ \<Rightarrow> None)"

text \<open>
  The rules in the words of the specification. A part number or a material name is
  \<^emph>\<open>present\<close> when it is a true value (the specification has absent fields default to the
  empty string); the quantity is present and non-empty when it is neither \<^verbatim>\<open>None\<close> nor
  the empty string.
\<close>

definition found_in :: "(string \<times> pyval) list \<Rightarrow> string \<Rightarrow> pykey set \<Rightarrow> bool" where
  "found_in d key s =
     (case map_of d key of
        None \<Rightarrow> False
      | Some v \<Rightarrow> py_truthy v \<and> (case py_hash v of None \<Rightarrow> False | Some k \<Rightarrow> k \<in> s))"

definition qty_given :: "(string \<times> pyval) list \<Rightarrow> bool" where
  "qty_given d =
     (case map_of d ''qty'' of None \<Rightarrow> False | Some q \<Rightarrow> q \<noteq> PNone \<and> q \<noteq> PStr '''')"

definition matches_rule1 :: "(string \<times> pyval) list \<Rightarrow> pykey set \<Rightarrow> bool" where
  "matches_rule1 d pn_set = (found_in d ''part_number'' pn_set \<and> qty_given d)"

definition matches_rule4 :: "(string \<times> pyval) list \<Rightarrow> pykey set \<Rightarrow> pykey set \<Rightarrow> bool" where
  "matches_rule4 d pn_set name_set =
     (\<not> found_in d ''part_number'' pn_set \<and> found_in d ''material_name'' name_set)"

text \<open>
  A field can be looked up in a set when it is missing, false, or hashable: a non-empty
  list or dict in its place makes \<^verbatim>\<open>x in s\<close> raise.
\<close>

definition lookup_ok :: "(string \<times> pyval) list \<Rightarrow> string \<Rightarrow> bool" where
  "lookup_ok d key =
     (case map_of d key of None \<Rightarrow> True | Some v \<Rightarrow> \<not> py_truthy v \<or> py_hash v \<noteq> None)"

text \<open>The item with the four classification fields set and every other field as it was.\<close>

definition enriched ::
  "(string \<times> pyval) list \<Rightarrow> string \<Rightarrow> string \<Rightarrow> string \<Rightarrow> string \<Rightarrow> (string \<times> pyval) list \<Rightarrow> bool" where
  "enriched d label confidence reasoning action d' =
     (map_of d' = (map_of d)(''qa_classification_label'' \<mapsto> PStr label,
                             ''qa_confidence_level'' \<mapsto> PStr confidence,
                             ''reasoning'' \<mapsto> PStr reasoning,
                             ''action_path'' \<mapsto> PStr action))"

text \<open>
  The loop of \<^verbatim>\<open>_extract_and_classify_items\<close> over the raw items; the first exception ends it.
\<close>

fun classify_all :: "pyval list \<Rightarrow> pykey set \<Rightarrow> pykey set \<Rightarrow> exn + pyval list" where
  "classify_all [] pn_set name_set = Inr []"
| "classify_all (item # raw_items) pn_set name_set =
     (case apply_classification_logic item pn_set name_set of
        Inl e \<Rightarrow> Inl e
      | Inr classified_item \<Rightarrow>
          (case classify_all raw_items pn_set name_set of
             Inl e \<Rightarrow> Inl e
           | Inr classified_items \<Rightarrow> Inr (classified_item # classified_items)))"

text \<open>
  The set comprehension \<^verbatim>\<open>{item[key] for item in item_master_items if item.get(key)}\<close>:
  only true values enter the set.
\<close>

fun field_set :: "string \<Rightarrow> pyval list \<Rightarrow> exn + pykey set" where
  "field_set key [] = Inr {}"
| "field_set key (item # items) =
     (case py_get item key of
        Inl e \<Rightarrow> Inl e
      | Inr v \<Rightarrow>
          if py_truthy v then
            (case py_hash v of
               None \<Rightarrow> Inl TypeError
             | Some k \<Rightarrow>
                 (case field_set key items of Inl e \<Rightarrow> Inl e | Inr s \<Rightarrow> Inr (insert k s)))
          else field_set key items)"

section \<open>The LLM gateway\<close>

text \<open>
  An f-string is kept as its template and the value interpolated: the two prompts, and the
  texts built from an exception.
\<close>

datatype prompt = TranslatePrompt pyval | ExtractItemsPrompt pyval

datatype message = Text string | ProcessingFailed exn | FailedToStartWorkflow exn

text \<open>
  The request body of \<^verbatim>\<open>_call_api\<close>, and what comes back: \<^verbatim>\<open>response.text\<close> and the
  outcome of \<^verbatim>\<open>response.json()\<close>.
\<close>

record payload =
  pl_model :: string
  pl_content :: prompt
  pl_temperature :: "rat option"
  pl_response_mime_type :: "string option"

record response =
  response_text :: string
  response_json :: "exn + pyval"

text \<open>
  A service object: the configured model, \<^verbatim>\<open>requests.post\<close> followed by
  \<^verbatim>\<open>raise_for_status\<close> (\<open>Inl\<close> is the text of the \<^verbatim>\<open>RequestException\<close>), and the two
  library functions \<^verbatim>\<open>json.loads\<close> and \<^verbatim>\<open>re.search\<close> with the pattern of
  \<^verbatim>\<open>_extract_json_from_markdown\<close> (\<open>Some g\<close> is \<^verbatim>\<open>match.group(1)\<close>).
\<close>

record gateway =
  model :: string
  post :: "payload \<Rightarrow> string + response"
  json_loads :: "string \<Rightarrow> exn + pyval"
  re_search_json_block :: "string \<Rightarrow> string option"

definition call_api :: "gateway \<Rightarrow> prompt \<Rightarrow> string option \<Rightarrow> rat option \<Rightarrow> exn + response" where
  "call_api g p response_mime_type temperature =
     (case post g \<lparr>pl_model = model g, pl_content = p, pl_temperature = temperature,
                    pl_response_mime_type = response_mime_type\<rparr> of
        Inl e \<Rightarrow> Inl (RuntimeError (''API call failed: '' @ e))
      | Inr r \<Rightarrow> Inr r)"

text \<open>Subscripts with a str key and with the index 0, on any value.\<close>

fun py_getitem :: "pyval \<Rightarrow> string \<Rightarrow> exn + pyval" where
  "py_getitem (PDict kvs) key = (case map_of kvs key of None \<Rightarrow> Inl KeyError | Some v \<Rightarrow> Inr v)"
| "py_getitem _ key = Inl TypeError"

definition is_continuation :: "char \<Rightarrow> bool" where
  "is_continuation c = (128 \<le> (of_char c :: nat) \<and> (of_char c :: nat) < 192)"

fun py_getitem0 :: "pyval \<Rightarrow> exn + pyval" where
  "py_getitem0 (PList []) = Inl IndexError"
| "py_getitem0 (PList (x # xs)) = Inr x"
| "py_getitem0 (PStr []) = Inl IndexError"
| "py_getitem0 (PStr (c # cs)) = Inr (PStr (c # takeWhile is_continuation cs))"
| "py_getitem0 (PDict kvs) = Inl KeyError"
| "py_getitem0 _ = Inl TypeError"

text \<open>\<^verbatim>\<open>raw['choices'][0]['message']['content']\<close>\<close>

definition message_content :: "pyval \<Rightarrow> exn + pyval" where
  "message_content raw =
     (case py_getitem raw ''choices'' of Inl e \<Rightarrow> Inl e | Inr choices \<Rightarrow>
      case py_getitem0 choices of Inl e \<Rightarrow> Inl e | Inr choice \<Rightarrow>
      case py_getitem choice ''message'' of Inl e \<Rightarrow> Inl e | Inr msg \<Rightarrow>
      py_getitem msg ''content'')"

text \<open>\<^verbatim>\<open>key in x\<close> for a str \<^verbatim>\<open>key\<close>: a key of a dict, an element of a list, a substring of a str.\<close>

fun py_contains :: "string \<Rightarrow> pyval \<Rightarrow> exn + bool" where
  "py_contains key (PDict kvs) = Inr (map_of kvs key \<noteq> None)"
| "py_contains key (PList xs) = Inr (PStr key \<in> set xs)"
| "py_contains key (PStr s) = Inr (sublist key s)"
| "py_contains key _ = Inl TypeError"

section \<open>Translation adapter\<close>

text \<open>The \<^verbatim>\<open>try\<close> block of \<^verbatim>\<open>TranslationService.translate_to_english\<close>.\<close>

definition translate_try :: "gateway \<Rightarrow> pyval \<Rightarrow> exn + pyval" where
  "translate_try g text =
     (case call_api g (TranslatePrompt text) None None of Inl e \<Rightarrow> Inl e | Inr response \<Rightarrow>
      case response_json response of Inl e \<Rightarrow> Inl e | Inr raw \<Rightarrow>
      message_content raw)"

text \<open>\<^verbatim>\<open>translate_to_english\<close>: \<^verbatim>\<open>except Exception\<close> returns \<^verbatim>\<open>text\<close>.\<close>

definition translate_to_english :: "gateway \<Rightarrow> pyval \<Rightarrow> exn + pyval" where
  "translate_to_english g text =
     (case translate_try g text of Inr extracted_text \<Rightarrow> Inr extracted_text | Inl e \<Rightarrow> Inr text)"

section \<open>Extraction agent\<close>

text \<open>\<^verbatim>\<open>_extract_json_from_markdown\<close>; \<^verbatim>\<open>re.search\<close> raises \<^verbatim>\<open>TypeError\<close> on anything but a str.\<close>

definition extract_json_from_markdown :: "gateway \<Rightarrow> pyval \<Rightarrow> exn + string" where
  "extract_json_from_markdown g text =
     (case text of
        PStr s \<Rightarrow> Inr (case re_search_json_block g s of Some group1 \<Rightarrow> group1 | None \<Rightarrow> s)
      | _ \<Rightarrow> Inl TypeError)"

text \<open>The \<^verbatim>\<open>try\<close> block of \<^verbatim>\<open>GeminiAgentService.extract_all_items\<close>.\<close>

definition extract_all_items_try :: "gateway \<Rightarrow> pyval \<Rightarrow> exn + pyval list" where
  "extract_all_items_try g document_content =
     (case call_api g (ExtractItemsPrompt document_content) (Some ''application/json'') (Some (2 / 10)) of
        Inl e \<Rightarrow> Inl e | Inr response \<Rightarrow>
      case response_json response of Inl e \<Rightarrow> Inl e | Inr raw_data \<Rightarrow>
      case py_contains ''choices'' raw_data of Inl e \<Rightarrow> Inl e | Inr has_choices \<Rightarrow>
      if \<not> has_choices then Inr [] else
      case py_getitem raw_data ''choices'' of Inl e \<Rightarrow> Inl e | Inr choices \<Rightarrow>
      if \<not> py_truthy choices then Inr [] else
      case message_content raw_data of Inl e \<Rightarrow> Inl e | Inr extracted_text \<Rightarrow>
      case extract_json_from_markdown g extracted_text of Inl e \<Rightarrow> Inl e | Inr json_string \<Rightarrow>
      case json_loads g json_string of Inl e \<Rightarrow> Inl e | Inr parsed_data \<Rightarrow>
      (case parsed_data of PList xs \<Rightarrow> Inr xs | _ \<Rightarrow> Inr []))"

text \<open>
  \<^verbatim>\<open>extract_all_items\<close>: both handlers, \<^verbatim>\<open>except json.JSONDecodeError\<close> and
  \<^verbatim>\<open>except Exception\<close>, print and return the empty list.
\<close>

definition extract_all_items :: "gateway \<Rightarrow> pyval \<Rightarrow> exn + pyval list" where
  "extract_all_items g document_content =
     (case extract_all_items_try g document_content of
        Inr items \<Rightarrow> Inr items
      | Inl JSONDecodeError \<Rightarrow> Inr []
      | Inl e \<Rightarrow> Inr [])"

text \<open>
  The older service (\<^verbatim>\<open>gemini_agent_service_backup.py\<close>) calls the model through its
  client library: \<^verbatim>\<open>generate_content\<close> may raise, and so may reading \<^verbatim>\<open>response.text\<close>.
\<close>

record genai_model =
  generate_content :: "prompt \<Rightarrow> exn + (exn + string)"
  genai_json_loads :: "string \<Rightarrow> exn + pyval"

definition extract_all_items_backup_try :: "genai_model \<Rightarrow> pyval \<Rightarrow> exn + pyval list" where
  "extract_all_items_backup_try m document_content =
     (case generate_content m (ExtractItemsPrompt document_content) of Inl e \<Rightarrow> Inl e | Inr response \<Rightarrow>
      case response of Inl e \<Rightarrow> Inl e | Inr text \<Rightarrow>
      case genai_json_loads m text of Inl e \<Rightarrow> Inl e | Inr raw_data \<Rightarrow>
      (case raw_data of PList xs \<Rightarrow> Inr xs | _ \<Rightarrow> Inr []))"

definition extract_all_items_backup :: "genai_model \<Rightarrow> pyval \<Rightarrow> exn + pyval list" where
  "extract_all_items_backup m document_content =
     (case extract_all_items_backup_try m document_content of
        Inr items \<Rightarrow> Inr items
      | Inl e \<Rightarrow> Inr [])"

text \<open>\<^verbatim>\<open>WorkflowService._extract_and_classify_items\<close>\<close>

definition extract_and_classify_items :: "gateway \<Rightarrow> pyval \<Rightarrow> pyval list \<Rightarrow> exn + pyval list" where
  "extract_and_classify_items g wi_content item_master_items =
     (case extract_all_items g wi_content of Inl e \<Rightarrow> Inl e | Inr raw_items \<Rightarrow>
      case field_set ''part_number'' item_master_items of Inl e \<Rightarrow> Inl e | Inr item_master_items_pn_set \<Rightarrow>
      case field_set ''material_name'' item_master_items of Inl e \<Rightarrow> Inl e | Inr item_master_items_name_set \<Rightarrow>
      classify_all raw_items item_master_items_pn_set item_master_items_name_set)"

section \<open>Summary and persistence\<close>

record summary =
  total_materials :: nat
  successful_matches :: nat
  knowledge_base_matches :: nat
  comparison_mode :: string

text \<open>
  \<^verbatim>\<open>str.lower()\<close>. On ASCII text it lower-cases the letters A to Z and nothing else. On text
  with a code point outside ASCII the result comes from the Unicode database (it turns
  U+212A, the Kelvin sign, into k): that mapping is the parameter \<open>unicode_lower\<close>.
\<close>

definition lower_char :: "char \<Rightarrow> char" where
  "lower_char c =
     (if 65 \<le> (of_char c :: nat) \<and> (of_char c :: nat) \<le> 90 then char_of ((of_char c :: nat) + 32) else c)"

definition is_ascii :: "string \<Rightarrow> bool" where
  "is_ascii s = list_all (\<lambda>c. (of_char c :: nat) < 128) s"

definition py_lower :: "(string \<Rightarrow> string) \<Rightarrow> string \<Rightarrow> string" where
  "py_lower unicode_lower s = (if is_ascii s then map lower_char s else unicode_lower s)"

text \<open>\<^verbatim>\<open>isinstance(item, dict) and item.get('qa_confidence_level') in levels\<close>\<close>

definition confidence_in :: "string list \<Rightarrow> pyval \<Rightarrow> bool" where
  "confidence_in levels item =
     (case item of
        PDict d \<Rightarrow>
          (case map_of d ''qa_confidence_level'' of
             Some (PStr level) \<Rightarrow> level \<in> set levels
           | _ \<Rightarrow> False)
      | _ \<Rightarrow> False)"

text \<open>
  \<^verbatim>\<open>isinstance(item, dict) and 'knowledge_base' in item.get('reasoning', '').lower()\<close>:
  a reasoning that is not a str has no \<^verbatim>\<open>lower\<close>.
\<close>

definition mentions_knowledge_base :: "(string \<Rightarrow> string) \<Rightarrow> pyval \<Rightarrow> exn + bool" where
  "mentions_knowledge_base unicode_lower item =
     (case item of
        PDict d \<Rightarrow>
          (case map_of d ''reasoning'' of
             None \<Rightarrow> Inr (sublist ''knowledge_base'' (py_lower unicode_lower ''''))
           | Some (PStr s) \<Rightarrow> Inr (sublist ''knowledge_base'' (py_lower unicode_lower s))
           | Some _ \<Rightarrow> Inl AttributeError)
      | _ \<Rightarrow> Inr False)"

text \<open>\<^verbatim>\<open>sum(1 for item in items if ...)\<close> with a condition that may raise.\<close>

fun count_knowledge_base :: "(string \<Rightarrow> string) \<Rightarrow> pyval list \<Rightarrow> exn + nat" where
  "count_knowledge_base unicode_lower [] = Inr 0"
| "count_knowledge_base unicode_lower (item # items) =
     (case mentions_knowledge_base unicode_lower item of
        Inl e \<Rightarrow> Inl e
      | Inr b \<Rightarrow>
          (case count_knowledge_base unicode_lower items of
             Inl e \<Rightarrow> Inl e
           | Inr n \<Rightarrow> Inr (if b then n + 1 else n)))"

text \<open>\<^verbatim>\<open>WorkflowService._generate_summary\<close>\<close>

definition generate_summary :: "(string \<Rightarrow> string) \<Rightarrow> pyval \<Rightarrow> string \<Rightarrow> exn + summary" where
  "generate_summary unicode_lower items mode =
     (case items of
        PList xs \<Rightarrow>
          (case count_knowledge_base unicode_lower xs of
             Inl e \<Rightarrow> Inl e
           | Inr kb \<Rightarrow>
               Inr \<lparr>total_materials = length xs,
                    successful_matches = length (filter (confidence_in [''high'', ''medium'']) xs),
                    knowledge_base_matches = kb,
                    comparison_mode = mode\<rparr>)
      | _ \<Rightarrow>
          Inr \<lparr>total_materials = 0, successful_matches = 0, knowledge_base_matches = 0,
               comparison_mode = mode\<rparr>)"

text \<open>
  What the worker writes: the calls of \<^verbatim>\<open>WorkflowModel.update_workflow_status\<close> in the
  order they were made (an argument that is not passed is \<open>None\<close>), the results files, the
  rows of \<^verbatim>\<open>workflow_results\<close> and the pending approvals. \<^verbatim>\<open>json.dumps(x)\<close> is kept as
  the value \<^verbatim>\<open>x\<close> it serialises.
\<close>

record status_update =
  su_workflow_id :: string
  su_status :: string
  su_progress :: "nat option"
  su_stage :: "string option"
  su_message :: "message option"

record pending_approval =
  pa_workflow_id :: string
  pa_item_payload :: pyval
  pa_status :: string

record store =
  workflow_updates :: "status_update list"
  results_files :: "string \<rightharpoonup> (pyval list \<times> summary)"
  workflow_results :: "(string \<times> pyval list \<times> summary) list"
  pending_approvals :: "pending_approval list"

text \<open>
  The collaborators of one run of the worker, as the outcomes of their calls:
  the document parser (the item master is parsed twice; the second argument of
  \<^verbatim>\<open>parse_item_master\<close> numbers the call), the two LLM services, the Unicode part of
  \<^verbatim>\<open>str.lower\<close>, and for each write whether it raises: the results file, the results row,
  the insertion of a pending approval (given the store it meets, so that each call has its
  own outcome) and a status update made inside the \<^verbatim>\<open>try\<close> block.
\<close>

record collaborators =
  extract_text :: "string \<Rightarrow> exn + pyval"
  parse_item_master :: "string \<Rightarrow> nat \<Rightarrow> exn + pyval list"
  translation_service :: gateway
  gemini_service :: gateway
  unicode_lower :: "string \<Rightarrow> string"
  write_results_file :: "string \<Rightarrow> exn option"
  insert_results_row :: "string \<Rightarrow> exn option"
  add_pending_item_raises :: "store \<Rightarrow> string \<Rightarrow> pyval \<Rightarrow> exn option"
  update_status_raises :: "status_update \<Rightarrow> exn option"

text \<open>
  Modelled from the spec: \<^verbatim>\<open>WorkflowModel.update_workflow_status\<close> (\<^verbatim>\<open>models.py\<close> is not among the
  sources). The orchestrator is the sole writer of a workflow's status and each transition is
  persisted before the next step: a call that returns has recorded its arguments.
\<close>

definition update_workflow_status ::
  "string \<Rightarrow> string \<Rightarrow> nat option \<Rightarrow> string option \<Rightarrow> message option \<Rightarrow> store \<Rightarrow> store" where
  "update_workflow_status workflow_id status progress stage msg st =
     st\<lparr>workflow_updates := workflow_updates st @
          [\<lparr>su_workflow_id = workflow_id, su_status = status, su_progress = progress,
            su_stage = stage, su_message = msg\<rparr>]\<rparr>"

text \<open>
  A status update made inside the \<^verbatim>\<open>try\<close> block is a database write like the others there:
  it raises and records nothing, or it returns. The update of the \<^verbatim>\<open>except\<close> clause is taken
  to return: an exception there would leave the worker, and the specification has every
  failed run end in the error state.
\<close>

definition update_workflow_status_in_try ::
  "collaborators \<Rightarrow> string \<Rightarrow> string \<Rightarrow> nat option \<Rightarrow> string option \<Rightarrow> message option \<Rightarrow>
   store \<Rightarrow> (exn + unit) \<times> store" where
  "update_workflow_status_in_try c workflow_id status progress stage msg st =
     (case update_status_raises c
             \<lparr>su_workflow_id = workflow_id, su_status = status, su_progress = progress,
              su_stage = stage, su_message = msg\<rparr> of
        Some e \<Rightarrow> (Inl e, st)
      | None \<Rightarrow> (Inr (), update_workflow_status workflow_id status progress stage msg st))"

text \<open>
  Modelled from the spec: \<^verbatim>\<open>PendingApprovalModel.add_pending_item\<close> (\<^verbatim>\<open>models.py\<close> is not among the
  sources). It inserts one PendingApproval, in status pending, that references the workflow
  and carries the serialised item; as a database write it may raise instead, and then it
  inserts nothing.
\<close>

definition add_pending_item ::
  "collaborators \<Rightarrow> string \<Rightarrow> pyval \<Rightarrow> store \<Rightarrow> (exn + unit) \<times> store" where
  "add_pending_item c workflow_id item_data st =
     (case add_pending_item_raises c st workflow_id item_data of
        Some e \<Rightarrow> (Inl e, st)
      | None \<Rightarrow>
          (Inr (), st\<lparr>pending_approvals := pending_approvals st @
             [\<lparr>pa_workflow_id = workflow_id, pa_item_payload = item_data,
               pa_status = ''pending''\<rparr>]\<rparr>))"

text \<open>
  \<^verbatim>\<open>WorkflowService._create_pending_approvals\<close>: the first insertion that raises ends the loop,
  and the approvals inserted before it stay.
\<close>

fun create_pending_approvals ::
  "collaborators \<Rightarrow> string \<Rightarrow> pyval list \<Rightarrow> store \<Rightarrow> (exn + unit) \<times> store" where
  "create_pending_approvals c workflow_id [] st = (Inr (), st)"
| "create_pending_approvals c workflow_id (match # matches) st =
     (if confidence_in [''low'', ''high'', ''medium''] match then
        (case add_pending_item c workflow_id match st of
           (Inl e, st') \<Rightarrow> (Inl e, st')
         | (Inr u, st') \<Rightarrow> create_pending_approvals c workflow_id matches st')
      else create_pending_approvals c workflow_id matches st)"

text \<open>
  \<^verbatim>\<open>WorkflowService._save_workflow_results\<close>: the file first, then the table row. Writing
  the file is one step: it raises and leaves no file, or it writes the whole document. The
  result pairs the outcome with the store as the call leaves it.
\<close>

definition save_workflow_results ::
  "collaborators \<Rightarrow> string \<Rightarrow> pyval list \<Rightarrow> summary \<Rightarrow> store \<Rightarrow> (exn + unit) \<times> store" where
  "save_workflow_results c workflow_id results summ st =
     (let results_file = ''results/'' @ workflow_id @ ''.json'' in
      case write_results_file c results_file of
        Some e \<Rightarrow> (Inl e, st)
      | None \<Rightarrow>
          let st1 = st\<lparr>results_files := (results_files st)(results_file \<mapsto> (results, summ))\<rparr> in
          (case insert_results_row c workflow_id of
             Some e \<Rightarrow> (Inl e, st1)
           | None \<Rightarrow>
               (Inr (), st1\<lparr>workflow_results := workflow_results st1 @ [(workflow_id, results, summ)]\<rparr>)))"

text \<open>\<^verbatim>\<open>parse_item_master(item_path) if item_path else []\<close>\<close>

definition parse_if_given :: "collaborators \<Rightarrow> string option \<Rightarrow> nat \<Rightarrow> exn + pyval list" where
  "parse_if_given c item_path call =
     (case item_path of
        None \<Rightarrow> Inr []
      | Some p \<Rightarrow> if p = [] then Inr [] else parse_item_master c p call)"

text \<open>
  The \<^verbatim>\<open>try\<close> block of \<^verbatim>\<open>WorkflowService._process_workflow_async\<close>: the outcome, and the store
  at the moment it ends. Every call in it may raise.
\<close>

definition process_workflow_try ::
  "collaborators \<Rightarrow> string \<Rightarrow> string \<Rightarrow> string option \<Rightarrow> string \<Rightarrow> store \<Rightarrow> (exn + unit) \<times> store" where
  "process_workflow_try c workflow_id wi_path item_path mode st =
     (case update_workflow_status_in_try c workflow_id ''processing'' (Some 10) (Some ''extracting'')
             (Some (Text ''Extracting data from documents'')) st of
        (Inl e, st1) \<Rightarrow> (Inl e, st1) | (Inr u1, st1) \<Rightarrow>
     (case extract_text c wi_path of Inl e \<Rightarrow> (Inl e, st1) | Inr wi_content \<Rightarrow>
     (case parse_if_given c item_path 0 of Inl e \<Rightarrow> (Inl e, st1) | Inr item_master_items0 \<Rightarrow>
     (case update_workflow_status_in_try c workflow_id ''processing'' (Some 30) (Some ''translating'')
             (Some (Text ''Translating document to English'')) st1 of
        (Inl e, st2) \<Rightarrow> (Inl e, st2) | (Inr u2, st2) \<Rightarrow>
     (case translate_to_english (translation_service c) wi_content of
        Inl e \<Rightarrow> (Inl e, st2) | Inr translated_wi_content \<Rightarrow>
     (case update_workflow_status_in_try c workflow_id ''processing'' (Some 50) (Some ''classifying'')
             (Some (Text ''Classifying and matching items with Gemini'')) st2 of
        (Inl e, st3) \<Rightarrow> (Inl e, st3) | (Inr u3, st3) \<Rightarrow>
     (case parse_if_given c item_path 1 of Inl e \<Rightarrow> (Inl e, st3) | Inr item_master_items \<Rightarrow>
     (case extract_and_classify_items (gemini_service c) translated_wi_content item_master_items of
        Inl e \<Rightarrow> (Inl e, st3) | Inr extracted_items \<Rightarrow>
     (case generate_summary (unicode_lower c) (PList extracted_items) mode of
        Inl e \<Rightarrow> (Inl e, st3) | Inr summ \<Rightarrow>
     (case save_workflow_results c workflow_id extracted_items summ st3 of
        (Inl e, st4) \<Rightarrow> (Inl e, st4) | (Inr u4, st4) \<Rightarrow>
     (case create_pending_approvals c workflow_id extracted_items st4 of
        (Inl e, st5) \<Rightarrow> (Inl e, st5) | (Inr u5, st5) \<Rightarrow>
      update_workflow_status_in_try c workflow_id ''completed'' (Some 100) (Some ''completed'')
        (Some (Text ''Processing completed successfully'')) st5)))))))))))"

text \<open>\<^verbatim>\<open>_process_workflow_async\<close>: \<^verbatim>\<open>except Exception\<close> records the error status.\<close>

definition process_workflow_async ::
  "collaborators \<Rightarrow> string \<Rightarrow> string \<Rightarrow> string option \<Rightarrow> string \<Rightarrow> store \<Rightarrow> store" where
  "process_workflow_async c workflow_id wi_path item_path mode st =
     (case process_workflow_try c workflow_id wi_path item_path mode st of
        (Inr u, st') \<Rightarrow> st'
      | (Inl e, st') \<Rightarrow>
          update_workflow_status workflow_id ''error'' None None (Some (ProcessingFailed e)) st')"

section \<open>Upload endpoint\<close>

record upload_file =
  filename :: string
  file_bytes :: string

datatype http_result =
    HTTPException nat message
  | JSONResponse "(string \<times> pyval) list"

text \<open>
  \<^verbatim>\<open>upload_documents\<close> of \<^verbatim>\<open>main_backup.py\<close>, over any server state \<open>'w\<close>.
  \<^verbatim>\<open>workflow_service.start_workflow\<close> comes from \<^verbatim>\<open>services.workflow_service\<close> and
  \<^verbatim>\<open>uuid.uuid4\<close> from the library: both are parameters.
\<close>

definition upload_documents ::
  "(string \<Rightarrow> upload_file \<Rightarrow> upload_file option \<Rightarrow> string \<Rightarrow> 'w \<Rightarrow> (exn + bool) \<times> 'w) \<Rightarrow>
   ('w \<Rightarrow> string \<times> 'w) \<Rightarrow>
   upload_file option \<Rightarrow> upload_file option \<Rightarrow> string \<Rightarrow> 'w \<Rightarrow> http_result \<times> 'w" where
  "upload_documents start_workflow uuid4 wi_document item_master mode w =
     (case wi_document of
        None \<Rightarrow> (HTTPException 400 (Text ''WI document is required''), w)
      | Some wi \<Rightarrow>
          if mode = ''full'' \<and> item_master = None then
            (HTTPException 400 (Text ''Item Master is required for full comparison mode''), w)
          else
            (case uuid4 w of
               (workflow_id, w1) \<Rightarrow>
                 (case start_workflow workflow_id wi item_master mode w1 of
                    (Inl e, w2) \<Rightarrow> (HTTPException 500 (FailedToStartWorkflow e), w2)
                  | (Inr ok, w2) \<Rightarrow>
                      (JSONResponse [(''success'', PBool True),
                                     (''workflow_id'', PStr workflow_id),
                                     (''message'', PStr ''Processing started successfully'')], w2))))"

section \<open>The failure modes in the words of the specification\<close>

text \<open>
  The translation fails when the upstream call fails or its response cannot be parsed: the
  body is not JSON, or it lacks \<^verbatim>\<open>choices[0].message.content\<close>.
\<close>

definition translation_failed :: "gateway \<Rightarrow> pyval \<Rightarrow> bool" where
  "translation_failed g text =
     (case post g \<lparr>pl_model = model g, pl_content = TranslatePrompt text, pl_temperature = None,
                    pl_response_mime_type = None\<rparr> of
        Inl e \<Rightarrow> True
      | Inr r \<Rightarrow> (case response_json r of Inl e \<Rightarrow> True | Inr raw \<Rightarrow> isl (message_content raw)))"

text \<open>
  The gateway answers the extraction request with the array \<open>xs\<close>: the call succeeds, the
  body is JSON with \<^verbatim>\<open>choices[0].message.content\<close> a str, and that str (or the fenced block
  inside it) parses to the JSON array \<open>xs\<close>. Every other response is malformed.
\<close>

definition array_response :: "gateway \<Rightarrow> pyval \<Rightarrow> pyval list \<Rightarrow> bool" where
  "array_response g document_content xs =
     (case post g \<lparr>pl_model = model g, pl_content = ExtractItemsPrompt document_content,
                    pl_temperature = Some (2 / 10),
                    pl_response_mime_type = Some ''application/json''\<rparr> of
        Inl e \<Rightarrow> False
      | Inr r \<Rightarrow>
          (case response_json r of
             Inl e \<Rightarrow> False
           | Inr raw \<Rightarrow>
               (case message_content raw of
                  Inr (PStr s) \<Rightarrow>
                    json_loads g (case re_search_json_block g s of Some b \<Rightarrow> b | None \<Rightarrow> s)
                      = Inr (PList xs)
                | _ \<Rightarrow> False)))"

definition array_response_backup :: "genai_model \<Rightarrow> pyval \<Rightarrow> pyval list \<Rightarrow> bool" where
  "array_response_backup m document_content xs =
     (case generate_content m (ExtractItemsPrompt document_content) of
        Inr (Inr text) \<Rightarrow> genai_json_loads m text = Inr (PList xs)
      | _ \<Rightarrow> False)"

section \<open>The summary and the approvals in the words of the specification\<close>

text \<open>The item carries the confidence level \<open>level\<close>.\<close>

definition has_confidence :: "string \<Rightarrow> pyval \<Rightarrow> bool" where
  "has_confidence level item =
     (case item of
        PDict d \<Rightarrow> map_of d ''qa_confidence_level'' = Some (PStr level)
      | _ \<Rightarrow> False)"

text \<open>
  A text contains a word case-insensitively when the lower-cased word occurs in the
  lower-cased text.
\<close>

definition contains_ignoring_case :: "(string \<Rightarrow> string) \<Rightarrow> string \<Rightarrow> string \<Rightarrow> bool" where
  "contains_ignoring_case ul word s =
     sublist (py_lower ul word) (py_lower ul s)"

definition reasoning_mentions :: "(string \<Rightarrow> string) \<Rightarrow> string \<Rightarrow> pyval \<Rightarrow> bool" where
  "reasoning_mentions ul word item =
     (case item of
        PDict d \<Rightarrow>
          (case map_of d ''reasoning'' of
             Some (PStr s) \<Rightarrow> contains_ignoring_case ul word s
           | _ \<Rightarrow> False)
      | _ \<Rightarrow> False)"

text \<open>
  The reasoning of an item, when it has one, is a str. It is for every classified item: the
  classification writes the field.
\<close>

definition reasoning_is_str :: "pyval \<Rightarrow> bool" where
  "reasoning_is_str item =
     (case item of
        PDict d \<Rightarrow>
          (case map_of d ''reasoning'' of
             None \<Rightarrow> True
           | Some (PStr s) \<Rightarrow> True
           | Some _ \<Rightarrow> False)
      | _ \<Rightarrow> True)"

text \<open>A raw item that Rule 1 matches.\<close>

definition rule1_item :: "pykey set \<Rightarrow> pyval \<Rightarrow> bool" where
  "rule1_item pn_set item = (case item of PDict d \<Rightarrow> matches_rule1 d pn_set | _ \<Rightarrow> False)"

text \<open>The PendingApproval of a workflow for an item.\<close>

definition pending_for :: "string \<Rightarrow> pyval \<Rightarrow> pending_approval" where
  "pending_for workflow_id item =
     \<lparr>pa_workflow_id = workflow_id, pa_item_payload = item, pa_status = ''pending''\<rparr>"

text \<open>
  The classified items of a run: what the extraction agent finds in the translated text of
  the document, classified against the item master as parsed in the classifying stage.
\<close>

definition run_classified_items :: "collaborators \<Rightarrow> string \<Rightarrow> string option \<Rightarrow> exn + pyval list" where
  "run_classified_items c wi_path item_path =
     (case extract_text c wi_path of Inl e \<Rightarrow> Inl e | Inr wi_content \<Rightarrow>
     (case translate_to_english (translation_service c) wi_content of Inl e \<Rightarrow> Inl e | Inr translated \<Rightarrow>
     (case parse_if_given c item_path 1 of Inl e \<Rightarrow> Inl e | Inr item_master_items \<Rightarrow>
      extract_and_classify_items (gemini_service c) translated item_master_items)))"

text \<open>The results artifact of a workflow.\<close>

definition results_path :: "string \<Rightarrow> string" where
  "results_path workflow_id = ''results/'' @ workflow_id @ ''.json''"

section \<open>The workflow state machine in the words of the specification\<close>

text \<open>
  The four transitions of a run, in order, and the transition to the error state with the
  message that describes the failure.
\<close>

definition stage_updates :: "string \<Rightarrow> status_update list" where
  "stage_updates workflow_id =
     [\<lparr>su_workflow_id = workflow_id, su_status = ''processing'', su_progress = Some 10,
       su_stage = Some ''extracting'', su_message = Some (Text ''Extracting data from documents'')\<rparr>,
      \<lparr>su_workflow_id = workflow_id, su_status = ''processing'', su_progress = Some 30,
       su_stage = Some ''translating'', su_message = Some (Text ''Translating document to English'')\<rparr>,
      \<lparr>su_workflow_id = workflow_id, su_status = ''processing'', su_progress = Some 50,
       su_stage = Some ''classifying'',
       su_message = Some (Text ''Classifying and matching items with Gemini'')\<rparr>,
      \<lparr>su_workflow_id = workflow_id, su_status = ''completed'', su_progress = Some 100,
       su_stage = Some ''completed'', su_message = Some (Text ''Processing completed successfully'')\<rparr>]"

definition error_update :: "string \<Rightarrow> exn \<Rightarrow> status_update" where
  "error_update workflow_id e =
     \<lparr>su_workflow_id = workflow_id, su_status = ''error'', su_progress = None, su_stage = None,
      su_message = Some (ProcessingFailed e)\<rparr>"

text \<open>The progress values written by a sequence of status updates, in order.\<close>

definition progress_written :: "status_update list \<Rightarrow> nat list" where
  "progress_written us = concat (map (\<lambda>u. case su_progress u of None \<Rightarrow> [] | Some p \<Rightarrow> [p]) us)"

text \<open>The progress that goes with a stage.\<close>

definition stage_progress :: "string \<Rightarrow> nat option" where
  "stage_progress stage =
     (if stage = ''extracting'' then Some 10
      else if stage = ''translating'' then Some 30
      else if stage = ''classifying'' then Some 50
      else if stage = ''completed'' then Some 100
      else None)"

text \<open>
  What the specification asks of the updates written so far, at any moment of a run: the
  progress values are non-decreasing, each is the one of its stage, the last one is 100
  exactly when the status is completed, and all are below 100 while the status is error or
  processing.
\<close>

definition progress_consistent :: "status_update list \<Rightarrow> bool" where
  "progress_consistent us =
     (sorted (progress_written us) \<and>
      list_all (\<lambda>u. case su_stage u of None \<Rightarrow> su_progress u = None
                                     | Some stage \<Rightarrow> su_progress u \<noteq> None \<and>
                                         su_progress u = stage_progress stage) us \<and>
      ((su_status (last us) = ''completed'') =
         (progress_written us \<noteq> [] \<and> last (progress_written us) = 100)) \<and>
      (if su_status (last us) = ''error'' \<or> su_status (last us) = ''processing''
       then list_all (\<lambda>p. p < 100) (progress_written us) else True))"

section \<open>Example collaborators\<close>

text \<open>
  Concrete collaborators on which the worker can be run: a gateway that is down, a gateway
  that answers every request with the array of one empty object, and a run in which the
  translation falls back to the original text, one item is extracted and every write
  succeeds.
\<close>

definition offline_gateway :: gateway where
  "offline_gateway =
     \<lparr>model = ''gemini-2.5-flash'', post = (\<lambda>p. Inl ''connection refused''),
      json_loads = (\<lambda>s. Inl JSONDecodeError), re_search_json_block = (\<lambda>s. None)\<rparr>"

definition one_item_gateway :: gateway where
  "one_item_gateway =
     \<lparr>model = ''gemini-2.5-flash'',
      post = (\<lambda>p. Inr \<lparr>response_text = ''ok'',
                response_json = Inr (PDict [(''choices'',
                  PList [PDict [(''message'', PDict [(''content'', PStr ''[{}]'')])]])])\<rparr>),
      json_loads = (\<lambda>s. if s = ''[{}]'' then Inr (PList [PDict []]) else Inl JSONDecodeError),
      re_search_json_block = (\<lambda>s. None)\<rparr>"

definition example_collaborators :: collaborators where
  "example_collaborators =
     \<lparr>extract_text = (\<lambda>p. Inr (PStr ''text'')),
      parse_item_master = (\<lambda>p n. Inr []),
      translation_service = offline_gateway,
      gemini_service = one_item_gateway,
      unicode_lower = (\<lambda>s. s),
      write_results_file = (\<lambda>p. None),
      insert_results_row = (\<lambda>w. None),
      add_pending_item_raises = (\<lambda>st w item. None),
      update_status_raises = (\<lambda>u. None)\<rparr>"

definition empty_store :: store where
  "empty_store =
     \<lparr>workflow_updates = [], results_files = Map.empty, workflow_results = [],
      pending_approvals = []\<rparr>"

text \<open>What the rule engine makes of the empty object.\<close>

definition unmatched_item :: pyval where
  "unmatched_item =
     PDict [(''qa_classification_label'', PStr ''5''),
            (''qa_confidence_level'', PStr ''low''),
            (''reasoning'', PStr ''No match found''),
            (''action_path'', PStr (red_circle @ '' Human Intervention Required''))]"

text \<open>The same run, except that the status update to "completed" raises.\<close>

definition completion_fails :: collaborators where
  "completion_fails =
     example_collaborators
       \<lparr>update_status_raises :=
          (\<lambda>u. if su_status u = ''completed'' then Some (OtherError ''database is locked'') else None)\<rparr>"

section \<open>Properties of the classification engine\<close>

lemma map_of_dict_setitem: "map_of (dict_setitem d key v) = (map_of d)(key \<mapsto> v)"
  by (induction d key v rule: dict_setitem.induct) (auto simp: fun_eq_iff)

lemma found_in_lookup_ok: "found_in d key s \<Longrightarrow> lookup_ok d key"
  by (auto simp: found_in_def lookup_ok_def split: option.splits)

lemma match_eval:
  assumes "lookup_ok d key" and "py_get (PDict d) key = Inr v"
  shows "(if py_truthy v then py_in_set v s else Inr False) = Inr (found_in d key s)"
  using assms by (auto simp: lookup_ok_def found_in_def py_in_set_def split: option.splits)

lemma match_raises:
  assumes "\<not> lookup_ok d key" and "py_get (PDict d) key = Inr v"
  shows "(if py_truthy v then py_in_set v s else Inr False) = Inl TypeError"
  using assms by (auto simp: lookup_ok_def py_in_set_def split: option.splits)

lemma qty_eval:
  assumes "py_get (PDict d) ''qty'' = Inr q"
  shows "(q \<noteq> PNone \<and> q \<noteq> PStr '''') = qty_given d"
  using assms by (auto simp: qty_given_def split: option.splits)

lemma classification_result:
  assumes "lookup_ok d ''part_number''" and "lookup_ok d ''material_name''"
  shows "\<exists>d'. apply_classification_logic (PDict d) pn_set name_set = Inr (PDict d') \<and>
     (if matches_rule1 d pn_set then
        enriched d ''1'' ''high'' ''Match to BOM & Item Master Data''
          (green_circle @ '' Auto-Register'') d'
      else if matches_rule4 d pn_set name_set then
        enriched d ''4'' ''low'' ''Check for text match in master data''
          (red_circle @ '' Human Intervention Required'') d'
      else
        enriched d ''5'' ''low'' ''No match found''
          (red_circle @ '' Human Intervention Required'') d')"
proof -
  obtain pn nm q where g: "py_get (PDict d) ''part_number'' = Inr pn"
    "py_get (PDict d) ''material_name'' = Inr nm" "py_get (PDict d) ''qty'' = Inr q"
    by simp
  note m = match_eval [OF assms(1) g(1), of pn_set] match_eval [OF assms(2) g(2), of name_set]
    qty_eval [OF g(3)]
  show ?thesis
    unfolding apply_classification_logic_def
    by (simp only: g m sum.case pyval.case Let_def)
       (simp add: matches_rule1_def matches_rule4_def enriched_def map_of_dict_setitem)
qed

lemma classification_success:
  assumes "apply_classification_logic item pn_set name_set = Inr it"
  shows "\<exists>d. item = PDict d \<and> lookup_ok d ''part_number'' \<and> lookup_ok d ''material_name''"
proof (cases item)
  case (PDict d)
  obtain pn nm where g: "py_get (PDict d) ''part_number'' = Inr pn"
    "py_get (PDict d) ''material_name'' = Inr nm"
    by simp
  note a = assms [unfolded apply_classification_logic_def PDict]
  have p: "lookup_ok d ''part_number''"
  proof (rule ccontr)
    assume "\<not> lookup_ok d ''part_number''"
    from a show False
      by (simp only: g match_raises [OF \<open>\<not> lookup_ok d ''part_number''\<close> g(1)] sum.case) simp
  qed
  have "lookup_ok d ''material_name''"
  proof (rule ccontr)
    assume "\<not> lookup_ok d ''material_name''"
    from a show False
      by (simp only: g match_eval [OF p g(1)]
            match_raises [OF \<open>\<not> lookup_ok d ''material_name''\<close> g(2)] sum.case) simp
  qed
  with p show ?thesis using PDict by simp
qed (use assms in \<open>simp_all add: apply_classification_logic_def\<close>)

text \<open>
  The sets that \<^verbatim>\<open>_extract_and_classify_items\<close> builds hold true values only, so for them a
  field that is a member of the set is present.
\<close>

lemma field_set_members_true:
  assumes "field_set key rows = Inr s" and "py_hash v = Some k" and "k \<in> s"
  shows "py_truthy v"
proof -
  have "\<forall>k\<in>s. k \<noteq> KNone \<and> k \<noteq> KNum 0 \<and> k \<noteq> KStr []"
    using assms(1)
  proof (induction rows arbitrary: s)
    case Nil
    then show ?case by simp
  next
    case (Cons row rows)
    then show ?case
      by (cases row; cases "py_get row key")
         (auto split: if_splits option.splits sum.splits pyval.splits
               elim!: py_truthy.elims py_hash.elims)
  qed
  with assms(2,3) show ?thesis
    by (cases v) (auto split: if_splits)
qed

text \<open>
  Claim C1, as the code has it. An item whose part number is present and found in the
  item-master part-number set, and whose quantity is present and non-empty, comes back
  enriched with label "1", confidence "high", reasoning "Match to BOM & Item Master Data"
  and the action path made of the green circle U+1F7E2, a space and "Auto-Register",
  provided its material name is not a non-empty list or dict (which cannot be looked up in
  the name set).
\<close>

theorem rule1_auto_register:
  assumes "matches_rule1 d pn_set" and "lookup_ok d ''material_name''"
  shows "\<exists>d'. apply_classification_logic (PDict d) pn_set name_set = Inr (PDict d') \<and>
           enriched d ''1'' ''high'' ''Match to BOM & Item Master Data''
             (green_circle @ '' Auto-Register'') d'"
proof -
  from assms(1) have "lookup_ok d ''part_number''"
    by (auto simp: matches_rule1_def dest: found_in_lookup_ok)
  from classification_result [OF this assms(2), of pn_set name_set] assms(1)
  show ?thesis by simp
qed

theorem rule1_auto_register_witness:
  "matches_rule1 [(''part_number'', PStr ''PN-100''), (''qty'', PInt 5)] {KStr ''PN-100''} \<and>
   lookup_ok [(''part_number'', PStr ''PN-100''), (''qty'', PInt 5)] ''material_name'' \<and>
   (\<exists>d'. apply_classification_logic (PDict [(''part_number'', PStr ''PN-100''), (''qty'', PInt 5)])
            {KStr ''PN-100''} {} = Inr (PDict d') \<and>
         enriched [(''part_number'', PStr ''PN-100''), (''qty'', PInt 5)]
           ''1'' ''high'' ''Match to BOM & Item Master Data'' (green_circle @ '' Auto-Register'') d')"
proof -
  have h1: "matches_rule1 [(''part_number'', PStr ''PN-100''), (''qty'', PInt 5)] {KStr ''PN-100''}"
    by (simp add: matches_rule1_def found_in_def qty_given_def)
  have h2: "lookup_ok [(''part_number'', PStr ''PN-100''), (''qty'', PInt 5)] ''material_name''"
    by (simp add: lookup_ok_def)
  from rule1_auto_register [OF h1 h2, where name_set = "{}"] h1 h2 show ?thesis
    by blast
qed

text \<open>
  The action path the claim C1 names is not the one the code writes: for the item
  \<^verbatim>\<open>{part_number: "PN-100", qty: "5"}\<close> against a part-number set holding "PN-100", the field
  is the green circle, a space and "Auto-Register".
\<close>

theorem rule1_action_path_counterexample:
  "matches_rule1 [(''part_number'', PStr ''PN-100''), (''qty'', PStr ''5'')] {KStr ''PN-100''} \<and>
   result_field
     (apply_classification_logic (PDict [(''part_number'', PStr ''PN-100''), (''qty'', PStr ''5'')])
        {KStr ''PN-100''} {}) ''action_path''
     = Some (PStr ([CHR 0xF0, CHR 0x9F, CHR 0x9F, CHR 0xA2] @ '' Auto-Register'')) \<and>
   result_field
     (apply_classification_logic (PDict [(''part_number'', PStr ''PN-100''), (''qty'', PStr ''5'')])
        {KStr ''PN-100''} {}) ''action_path''
     \<noteq> Some (PStr ''Auto-Register'')"
  by (simp add: apply_classification_logic_def matches_rule1_def found_in_def qty_given_def
        py_in_set_def result_field_def green_circle_def red_circle_def)

text \<open>
  Claim C2, as the code has it. An item whose part number is absent or not found in the
  part-number set, and whose material name is present and found in the item-master name
  set, comes back enriched with label "4", confidence "low", reasoning
  "Check for text match in master data" and the action path made of the red circle U+1F534,
  a space and "Human Intervention Required", provided its part number is not a non-empty
  list or dict.
\<close>

theorem rule4_needs_review:
  assumes "matches_rule4 d pn_set name_set" and "lookup_ok d ''part_number''"
  shows "\<exists>d'. apply_classification_logic (PDict d) pn_set name_set = Inr (PDict d') \<and>
           enriched d ''4'' ''low'' ''Check for text match in master data''
             (red_circle @ '' Human Intervention Required'') d'"
proof -
  from assms(1) have n: "lookup_ok d ''material_name''" and r: "\<not> matches_rule1 d pn_set"
    by (auto simp: matches_rule4_def matches_rule1_def dest: found_in_lookup_ok)
  from classification_result [OF assms(2) n, of pn_set name_set] assms(1) r
  show ?thesis by simp
qed

theorem rule4_needs_review_witness:
  "matches_rule4 [(''material_name'', PStr ''Masking tape''), (''part_number'', PStr '''')]
     {KStr ''PN-100''} {KStr ''Masking tape''} \<and>
   lookup_ok [(''material_name'', PStr ''Masking tape''), (''part_number'', PStr '''')] ''part_number'' \<and>
   (\<exists>d'. apply_classification_logic
            (PDict [(''material_name'', PStr ''Masking tape''), (''part_number'', PStr '''')])
            {KStr ''PN-100''} {KStr ''Masking tape''} = Inr (PDict d') \<and>
         enriched [(''material_name'', PStr ''Masking tape''), (''part_number'', PStr '''')]
           ''4'' ''low'' ''Check for text match in master data''
           (red_circle @ '' Human Intervention Required'') d')"
proof -
  have h1: "matches_rule4 [(''material_name'', PStr ''Masking tape''), (''part_number'', PStr '''')]
              {KStr ''PN-100''} {KStr ''Masking tape''}"
    by (simp add: matches_rule4_def found_in_def)
  have h2: "lookup_ok [(''material_name'', PStr ''Masking tape''), (''part_number'', PStr '''')]
              ''part_number''"
    by (simp add: lookup_ok_def)
  from rule4_needs_review [OF h1 h2] h1 h2 show ?thesis
    by blast
qed

text \<open>
  The action path the claim C2 names is not the one the code writes: for an item without a
  part number whose material name is in the name set, the field starts with the red circle.
\<close>

theorem rule4_action_path_counterexample:
  "matches_rule4 [(''material_name'', PStr ''Masking tape'')] {} {KStr ''Masking tape''} \<and>
   result_field
     (apply_classification_logic (PDict [(''material_name'', PStr ''Masking tape'')])
        {} {KStr ''Masking tape''}) ''qa_classification_label'' = Some (PStr ''4'') \<and>
   result_field
     (apply_classification_logic (PDict [(''material_name'', PStr ''Masking tape'')])
        {} {KStr ''Masking tape''}) ''action_path''
     = Some (PStr ([CHR 0xF0, CHR 0x9F, CHR 0x94, CHR 0xB4] @ '' Human Intervention Required'')) \<and>
   result_field
     (apply_classification_logic (PDict [(''material_name'', PStr ''Masking tape'')])
        {} {KStr ''Masking tape''}) ''action_path''
     \<noteq> Some (PStr ''Human Intervention Required'')"
  by (simp add: apply_classification_logic_def matches_rule4_def found_in_def
        py_in_set_def result_field_def green_circle_def red_circle_def)

text \<open>
  Claim C3, as the code has it. An item that matches neither Rule 1 nor Rule 4 comes back
  enriched with label "5", confidence "low", reasoning "No match found" and the action path
  made of the red circle U+1F534, a space and "Human Intervention Required", provided
  neither its part number nor its material name is a non-empty list or dict.
\<close>

theorem default_no_match:
  assumes "\<not> matches_rule1 d pn_set" and "\<not> matches_rule4 d pn_set name_set"
    and "lookup_ok d ''part_number''" and "lookup_ok d ''material_name''"
  shows "\<exists>d'. apply_classification_logic (PDict d) pn_set name_set = Inr (PDict d') \<and>
           enriched d ''5'' ''low'' ''No match found''
             (red_circle @ '' Human Intervention Required'') d'"
  using classification_result [OF assms(3) assms(4), of pn_set name_set] assms(1) assms(2)
  by simp

theorem default_no_match_witness:
  "\<not> matches_rule1 [(''material_name'', PStr ''Glue''), (''part_number'', PStr ''PN-100''), (''qty'', PStr '''')]
       {KStr ''PN-100''} \<and>
   \<not> matches_rule4 [(''material_name'', PStr ''Glue''), (''part_number'', PStr ''PN-100''), (''qty'', PStr '''')]
       {KStr ''PN-100''} {KStr ''Glue''} \<and>
   (\<exists>d'. apply_classification_logic
            (PDict [(''material_name'', PStr ''Glue''), (''part_number'', PStr ''PN-100''), (''qty'', PStr '''')])
            {KStr ''PN-100''} {KStr ''Glue''} = Inr (PDict d') \<and>
         enriched [(''material_name'', PStr ''Glue''), (''part_number'', PStr ''PN-100''), (''qty'', PStr '''')]
           ''5'' ''low'' ''No match found'' (red_circle @ '' Human Intervention Required'') d')"
proof -
  let ?d = "[(''material_name'', PStr ''Glue''), (''part_number'', PStr ''PN-100''), (''qty'', PStr '''')]"
  have h1: "\<not> matches_rule1 ?d {KStr ''PN-100''}"
    by (simp add: matches_rule1_def found_in_def qty_given_def)
  have h2: "\<not> matches_rule4 ?d {KStr ''PN-100''} {KStr ''Glue''}"
    by (simp add: matches_rule4_def found_in_def)
  have h3: "lookup_ok ?d ''part_number''" and h4: "lookup_ok ?d ''material_name''"
    by (simp_all add: lookup_ok_def)
  from default_no_match [OF h1 h2 h3 h4] h1 h2 show ?thesis
    by blast
qed

text \<open>
  The action path the claim C3 names is not the one the code writes: for an item that
  matches nothing, the field starts with the red circle.
\<close>

theorem default_action_path_counterexample:
  "\<not> matches_rule1 [(''material_name'', PStr ''Unknown'')] {} \<and>
   \<not> matches_rule4 [(''material_name'', PStr ''Unknown'')] {} {} \<and>
   result_field
     (apply_classification_logic (PDict [(''material_name'', PStr ''Unknown'')]) {} {})
     ''qa_classification_label'' = Some (PStr ''5'') \<and>
   result_field
     (apply_classification_logic (PDict [(''material_name'', PStr ''Unknown'')]) {} {})
     ''action_path''
     = Some (PStr ([CHR 0xF0, CHR 0x9F, CHR 0x94, CHR 0xB4] @ '' Human Intervention Required'')) \<and>
   result_field
     (apply_classification_logic (PDict [(''material_name'', PStr ''Unknown'')]) {} {})
     ''action_path''
     \<noteq> Some (PStr ''Human Intervention Required'')"
  by (simp add: apply_classification_logic_def matches_rule1_def matches_rule4_def found_in_def
        qty_given_def py_in_set_def result_field_def green_circle_def red_circle_def)

section \<open>Properties of the translation adapter\<close>

text \<open>
  Claim C6. For every input text, when the upstream translation call fails or its response
  cannot be parsed, \<^verbatim>\<open>translate_to_english\<close> returns the input unchanged; and it never raises,
  whatever the gateway does.
\<close>

theorem translate_fail_open:
  "(translation_failed g text \<longrightarrow> translate_to_english g text = Inr text) \<and>
   (\<exists>v. translate_to_english g text = Inr v)"
  by (auto simp: translation_failed_def translate_to_english_def translate_try_def call_api_def
      split: sum.splits)

theorem translate_fail_open_witness:
  "translation_failed
     \<lparr>model = ''gemini-2.5-flash'', post = (\<lambda>p. Inl ''503 Server Error''),
      json_loads = (\<lambda>s. Inl JSONDecodeError), re_search_json_block = (\<lambda>s. None)\<rparr>
     (PStr ''abc'') \<and>
   translate_to_english
     \<lparr>model = ''gemini-2.5-flash'', post = (\<lambda>p. Inl ''503 Server Error''),
      json_loads = (\<lambda>s. Inl JSONDecodeError), re_search_json_block = (\<lambda>s. None)\<rparr>
     (PStr ''abc'') = Inr (PStr ''abc'')"
  using translate_fail_open [of
     "\<lparr>model = ''gemini-2.5-flash'', post = (\<lambda>p. Inl ''503 Server Error''),
      json_loads = (\<lambda>s. Inl JSONDecodeError), re_search_json_block = (\<lambda>s. None)\<rparr>" "PStr ''abc''"]
  by (simp add: translation_failed_def)

section \<open>Properties of the extraction agent\<close>

lemma py_getitem0_truthy: "py_getitem0 c = Inr v \<Longrightarrow> py_truthy c"
  by (cases c rule: py_getitem0.cases) simp_all

lemma py_getitem_dict:
  "py_getitem raw key = Inr v \<Longrightarrow> \<exists>kvs. raw = PDict kvs \<and> map_of kvs key = Some v"
  by (cases raw) (simp_all split: option.splits)

lemma message_content_choices:
  assumes "message_content raw = Inr v"
  shows "\<exists>choices. py_contains ''choices'' raw = Inr True \<and>
           py_getitem raw ''choices'' = Inr choices \<and> py_truthy choices"
proof -
  from assms obtain choices choice where c: "py_getitem raw ''choices'' = Inr choices"
    and c0: "py_getitem0 choices = Inr choice"
    by (auto simp: message_content_def split: sum.splits)
  from c obtain kvs where "raw = PDict kvs" "map_of kvs ''choices'' = Some choices"
    using py_getitem_dict by blast
  then have "py_contains ''choices'' raw = Inr True" by simp
  with c c0 show ?thesis using py_getitem0_truthy by blast
qed

lemma extract_all_items_try_array:
  assumes "array_response g doc xs"
  shows "extract_all_items_try g doc = Inr xs"
proof -
  from assms obtain r raw s where
    p: "post g \<lparr>pl_model = model g, pl_content = ExtractItemsPrompt doc,
                 pl_temperature = Some (2 / 10),
                 pl_response_mime_type = Some ''application/json''\<rparr> = Inr r"
    and j: "response_json r = Inr raw" and m: "message_content raw = Inr (PStr s)"
    and l: "json_loads g (case re_search_json_block g s of Some b \<Rightarrow> b | None \<Rightarrow> s) = Inr (PList xs)"
    by (auto simp: array_response_def split: sum.splits pyval.splits)
  from message_content_choices [OF m] obtain choices where
    "py_contains ''choices'' raw = Inr True" "py_getitem raw ''choices'' = Inr choices"
    "py_truthy choices"
    by blast
  with p j m l show ?thesis
    by (simp add: extract_all_items_try_def call_api_def extract_json_from_markdown_def)
qed

lemma extract_all_items_try_cases:
  assumes "extract_all_items_try g doc = Inr xs"
  shows "xs = [] \<or> array_response g doc xs"
  using assms
  by (auto simp: extract_all_items_try_def call_api_def extract_json_from_markdown_def
        array_response_def
      split: sum.splits if_splits pyval.splits)

lemma extract_all_items_total: "\<exists>xs. extract_all_items g doc = Inr xs"
  by (auto simp: extract_all_items_def split: sum.splits exn.splits)

lemma extract_all_items_malformed:
  assumes "\<not> (\<exists>ys. array_response g doc ys)"
  shows "extract_all_items g doc = Inr []"
proof (cases "extract_all_items_try g doc")
  case (Inl e)
  then show ?thesis by (simp add: extract_all_items_def split: exn.splits)
next
  case (Inr xs)
  with extract_all_items_try_cases [OF Inr] assms show ?thesis
    by (auto simp: extract_all_items_def)
qed

lemma extract_all_items_backup_total: "\<exists>xs. extract_all_items_backup m doc = Inr xs"
  by (auto simp: extract_all_items_backup_def split: sum.splits)

lemma extract_all_items_backup_array:
  "array_response_backup m doc xs \<Longrightarrow> extract_all_items_backup m doc = Inr xs"
  by (auto simp: extract_all_items_backup_def extract_all_items_backup_try_def
        array_response_backup_def
      split: sum.splits)

lemma extract_all_items_backup_malformed:
  "\<not> (\<exists>ys. array_response_backup m doc ys) \<Longrightarrow> extract_all_items_backup m doc = Inr []"
  by (auto simp: extract_all_items_backup_def extract_all_items_backup_try_def
        array_response_backup_def
      split: sum.splits pyval.splits)

text \<open>
  Claim C7. For every document text, \<^verbatim>\<open>extract_all_items\<close> of both services returns a list and
  never raises: the array the response parses to when the response is well formed, and the
  empty list when the call fails, the response is not JSON, lacks the expected structure, or
  parses to something other than a JSON array.
\<close>

theorem extract_all_items_returns_list:
  "(\<exists>ys. extract_all_items g doc = Inr ys) \<and>
   (array_response g doc xs \<longrightarrow> extract_all_items g doc = Inr xs) \<and>
   (\<not> (\<exists>ys. array_response g doc ys) \<longrightarrow> extract_all_items g doc = Inr []) \<and>
   (\<exists>ys. extract_all_items_backup m doc = Inr ys) \<and>
   (array_response_backup m doc xs \<longrightarrow> extract_all_items_backup m doc = Inr xs) \<and>
   (\<not> (\<exists>ys. array_response_backup m doc ys) \<longrightarrow> extract_all_items_backup m doc = Inr [])"
  using extract_all_items_total [of g doc] extract_all_items_malformed [of g doc]
    extract_all_items_try_array [of g doc xs]
    extract_all_items_backup_total [of m doc] extract_all_items_backup_array [of m doc xs]
    extract_all_items_backup_malformed [of m doc]
  by (simp add: extract_all_items_def)

theorem extract_all_items_returns_list_witness:
  "array_response
     \<lparr>model = ''gemini-2.5-flash'',
      post = (\<lambda>p. Inr \<lparr>response_text = ''ok'',
                response_json = Inr (PDict [(''choices'',
                  PList [PDict [(''message'', PDict [(''content'', PStr ''[{}]'')])]])])\<rparr>),
      json_loads = (\<lambda>s. if s = ''[{}]'' then Inr (PList [PDict []]) else Inl JSONDecodeError),
      re_search_json_block = (\<lambda>s. None)\<rparr>
     (PStr ''doc'') [PDict []] \<and>
   extract_all_items
     \<lparr>model = ''gemini-2.5-flash'',
      post = (\<lambda>p. Inr \<lparr>response_text = ''ok'',
                response_json = Inr (PDict [(''choices'',
                  PList [PDict [(''message'', PDict [(''content'', PStr ''[{}]'')])]])])\<rparr>),
      json_loads = (\<lambda>s. if s = ''[{}]'' then Inr (PList [PDict []]) else Inl JSONDecodeError),
      re_search_json_block = (\<lambda>s. None)\<rparr>
     (PStr ''doc'') = Inr [PDict []] \<and>
   \<not> (\<exists>ys. array_response_backup
          \<lparr>generate_content = (\<lambda>p. Inr (Inr ''not json'')),
           genai_json_loads = (\<lambda>s. Inl JSONDecodeError)\<rparr> (PStr ''doc'') ys) \<and>
   extract_all_items_backup
     \<lparr>generate_content = (\<lambda>p. Inr (Inr ''not json'')),
      genai_json_loads = (\<lambda>s. Inl JSONDecodeError)\<rparr> (PStr ''doc'') = Inr []"
proof -
  let ?g = "\<lparr>model = ''gemini-2.5-flash'',
      post = (\<lambda>p. Inr \<lparr>response_text = ''ok'',
                response_json = Inr (PDict [(''choices'',
                  PList [PDict [(''message'', PDict [(''content'', PStr ''[{}]'')])]])])\<rparr>),
      json_loads = (\<lambda>s. if s = ''[{}]'' then Inr (PList [PDict []]) else Inl JSONDecodeError),
      re_search_json_block = (\<lambda>s. None)\<rparr>"
  let ?m = "\<lparr>generate_content = (\<lambda>p. Inr (Inr ''not json'')),
      genai_json_loads = (\<lambda>s. Inl JSONDecodeError)\<rparr>"
  have h1: "array_response ?g (PStr ''doc'') [PDict []]"
    by (simp add: array_response_def message_content_def)
  have h2: "\<not> (\<exists>ys. array_response_backup ?m (PStr ''doc'') ys)"
    by (simp add: array_response_backup_def)
  from extract_all_items_returns_list [of ?g "PStr ''doc''" "[PDict []]" ?m] h1 h2
  show ?thesis by blast
qed

section \<open>Properties of the upload endpoint\<close>

text \<open>
  Claim C9. Submitting with comparison mode "full" and no item-master document fails at once
  with the HTTP status 400: no workflow identifier is returned, and the server state is as it
  was, so no workflow record has been created (neither \<^verbatim>\<open>uuid4\<close> nor \<^verbatim>\<open>start_workflow\<close> runs).
\<close>

theorem full_mode_requires_item_master:
  assumes "mode = ''full''"
  shows "\<exists>detail. upload_documents start_workflow uuid4 wi_document None mode w
           = (HTTPException 400 detail, w)"
  using assms by (simp add: upload_documents_def split: option.splits)

theorem full_mode_requires_item_master_witness:
  "\<exists>detail.
     upload_documents (\<lambda>workflow_id wi im mode w. (Inr True, workflow_id # w))
       (\<lambda>w. (''0b7e'', w)) (Some \<lparr>filename = ''wi.pdf'', file_bytes = ''%PDF''\<rparr>) None ''full''
       ([] :: string list)
     = (HTTPException 400 detail, [])"
  by (rule full_mode_requires_item_master) simp


section \<open>Properties of the summary\<close>

lemma py_lower_ascii: "is_ascii s \<Longrightarrow> py_lower ul s = map lower_char s"
  by (simp add: py_lower_def)

lemma py_lower_word: "py_lower ul ''knowledge_base'' = ''knowledge_base''"
  by (simp add: py_lower_def is_ascii_def lower_char_def)

lemma py_lower_Nil: "py_lower ul [] = []"
  by (simp add: py_lower_def is_ascii_def)

lemma mentions_knowledge_base_eq:
  "mentions_knowledge_base ul item =
     (if reasoning_is_str item then Inr (reasoning_mentions ul ''knowledge_base'' item)
      else Inl AttributeError)"
  by (auto simp: mentions_knowledge_base_def reasoning_mentions_def reasoning_is_str_def
        contains_ignoring_case_def py_lower_word py_lower_Nil
      split: pyval.splits option.splits)

lemma count_knowledge_base_eq:
  "count_knowledge_base ul items =
     (if list_all reasoning_is_str items
      then Inr (length (filter (reasoning_mentions ul ''knowledge_base'') items))
      else Inl AttributeError)"
  by (induction items) (simp_all add: mentions_knowledge_base_eq)

lemma confidence_in_high_medium:
  "confidence_in [''high'', ''medium''] =
     (\<lambda>item. has_confidence ''high'' item \<or> has_confidence ''medium'' item)"
  by (rule ext) (auto simp: confidence_in_def has_confidence_def split: pyval.splits option.splits)

lemma confidence_in_any:
  "confidence_in [''low'', ''high'', ''medium''] =
     (\<lambda>item. has_confidence ''low'' item \<or> has_confidence ''high'' item \<or>
        has_confidence ''medium'' item)"
  by (rule ext) (auto simp: confidence_in_def has_confidence_def split: pyval.splits option.splits)

lemma generate_summary_eq:
  "generate_summary ul (PList items) mode =
     (if list_all reasoning_is_str items then
        Inr \<lparr>total_materials = length items,
             successful_matches =
               length (filter (\<lambda>item. has_confidence ''high'' item \<or> has_confidence ''medium'' item) items),
             knowledge_base_matches = length (filter (reasoning_mentions ul ''knowledge_base'') items),
             comparison_mode = mode\<rparr>
      else Inl AttributeError)"
  by (simp add: generate_summary_def count_knowledge_base_eq confidence_in_high_medium)

text \<open>What the rule engine leaves in an item it has classified.\<close>

lemma no_knowledge_base_in_rule_texts:
  "\<not> sublist ''knowledge_base'' (map lower_char ''Match to BOM & Item Master Data'')"
  "\<not> sublist ''knowledge_base'' (map lower_char ''Check for text match in master data'')"
  "\<not> sublist ''knowledge_base'' (map lower_char ''No match found'')"
  by code_simp+

lemma rule_texts_ascii:
  "is_ascii ''Match to BOM & Item Master Data''"
  "is_ascii ''Check for text match in master data''"
  "is_ascii ''No match found''"
  by (simp_all add: is_ascii_def)

lemma rule_texts_no_knowledge_base:
  "\<not> contains_ignoring_case ul ''knowledge_base'' ''Match to BOM & Item Master Data''"
  "\<not> contains_ignoring_case ul ''knowledge_base'' ''Check for text match in master data''"
  "\<not> contains_ignoring_case ul ''knowledge_base'' ''No match found''"
  unfolding contains_ignoring_case_def py_lower_word
  by (simp_all only: py_lower_ascii [OF rule_texts_ascii(1)] py_lower_ascii [OF rule_texts_ascii(2)]
        py_lower_ascii [OF rule_texts_ascii(3)] no_knowledge_base_in_rule_texts not_False_eq_True)

lemma classified_item:
  assumes "apply_classification_logic item pn_set name_set = Inr it"
  shows "has_confidence ''high'' it = rule1_item pn_set item"
    and "has_confidence ''low'' it = (\<not> rule1_item pn_set item)"
    and "\<not> has_confidence ''medium'' it"
    and "reasoning_is_str it"
    and "\<not> reasoning_mentions ul ''knowledge_base'' it"
proof -
  from classification_success [OF assms] obtain d where d: "item = PDict d"
    and ok: "lookup_ok d ''part_number''" "lookup_ok d ''material_name''"
    by blast
  from classification_result [OF ok, of pn_set name_set] assms d obtain d' where
    it: "it = PDict d'" and
    e: "if matches_rule1 d pn_set then
          enriched d ''1'' ''high'' ''Match to BOM & Item Master Data''
            (green_circle @ '' Auto-Register'') d'
        else if matches_rule4 d pn_set name_set then
          enriched d ''4'' ''low'' ''Check for text match in master data''
            (red_circle @ '' Human Intervention Required'') d'
        else
          enriched d ''5'' ''low'' ''No match found''
            (red_circle @ '' Human Intervention Required'') d'"
    by auto
  from e have c: "map_of d' ''qa_confidence_level''
      = Some (PStr (if matches_rule1 d pn_set then ''high'' else ''low''))"
    by (auto simp: enriched_def split: if_splits)
  from e have r: "map_of d' ''reasoning'' = Some (PStr ''Match to BOM & Item Master Data'') \<or>
      map_of d' ''reasoning'' = Some (PStr ''Check for text match in master data'') \<or>
      map_of d' ''reasoning'' = Some (PStr ''No match found'')"
    by (auto simp: enriched_def split: if_splits)
  from c show "has_confidence ''high'' it = rule1_item pn_set item"
    and "has_confidence ''low'' it = (\<not> rule1_item pn_set item)"
    and "\<not> has_confidence ''medium'' it"
    by (simp_all add: has_confidence_def rule1_item_def it d)
  from r show "reasoning_is_str it"
    by (auto simp: reasoning_is_str_def it)
  from r show "\<not> reasoning_mentions ul ''knowledge_base'' it"
    by (auto simp: reasoning_mentions_def it rule_texts_no_knowledge_base)
qed

lemma classify_all_rel:
  assumes "classify_all raw_items pn_set name_set = Inr items"
  shows "list_all2 (\<lambda>item it. apply_classification_logic item pn_set name_set = Inr it)
           raw_items items"
  using assms
  by (induction raw_items arbitrary: items) (auto split: sum.splits)

lemma filter_count_rel:
  assumes "list_all2 R xs ys" and "\<And>x y. R x y \<Longrightarrow> P x = Q y"
  shows "length (filter P xs) = length (filter Q ys)"
  using assms by (induction rule: list_all2_induct) auto

lemma list_all_rel:
  assumes "list_all2 R xs ys" and "\<And>x y. R x y \<Longrightarrow> Q y"
  shows "list_all Q ys"
  using assms by (induction rule: list_all2_induct) auto

text \<open>The summary of a list the rule engine has classified.\<close>

lemma classified_summary:
  assumes "classify_all raw_items pn_set name_set = Inr items"
  shows "list_all reasoning_is_str items"
    and "list_all (\<lambda>item. has_confidence ''low'' item \<or> has_confidence ''high'' item) items"
    and "length items = length raw_items"
    and "length (filter (has_confidence ''high'') items) = length (filter (rule1_item pn_set) raw_items)"
    and "generate_summary ul (PList items) mode =
           Inr \<lparr>total_materials = length items,
                successful_matches = length (filter (has_confidence ''high'') items),
                knowledge_base_matches = 0,
                comparison_mode = mode\<rparr>"
proof -
  from assms have rel: "list_all2 (\<lambda>item it. apply_classification_logic item pn_set name_set = Inr it)
                    raw_items items"
    by (rule classify_all_rel)
  show text_ok: "list_all reasoning_is_str items"
    using rel by (rule list_all_rel) (rule classified_item(4))
  show "list_all (\<lambda>item. has_confidence ''low'' item \<or> has_confidence ''high'' item) items"
    using rel by (rule list_all_rel) (simp add: classified_item(1,2))
  show "length items = length raw_items"
    using rel by (simp add: list_all2_lengthD)
  show "length (filter (has_confidence ''high'') items) = length (filter (rule1_item pn_set) raw_items)"
    using rel by (rule filter_count_rel [symmetric]) (simp add: classified_item(1))
  have "list_all (\<lambda>it. \<not> reasoning_mentions ul ''knowledge_base'' it) items"
    using rel by (rule list_all_rel) (rule classified_item(5))
  then have kb: "filter (reasoning_mentions ul ''knowledge_base'') items = []"
    by (simp add: filter_empty_conv list_all_iff)
  have "list_all (\<lambda>it. \<not> has_confidence ''medium'' it) items"
    using rel by (rule list_all_rel) (rule classified_item(3))
  then have hm: "filter (\<lambda>item. has_confidence ''high'' item \<or> has_confidence ''medium'' item) items
      = filter (has_confidence ''high'') items"
    by (auto simp: list_all_iff intro: filter_cong)
  show "generate_summary ul (PList items) mode =
           Inr \<lparr>total_materials = length items,
                successful_matches = length (filter (has_confidence ''high'') items),
                knowledge_base_matches = 0,
                comparison_mode = mode\<rparr>"
    by (simp add: generate_summary_eq text_ok kb hm)
qed

section \<open>Properties of the pending approvals\<close>

lemma create_pending_approvals_cases:
  assumes "create_pending_approvals c workflow_id matches st = (r, st')"
  shows "\<exists>inserted.
           prefix inserted (filter (confidence_in [''low'', ''high'', ''medium'']) matches) \<and>
           st' = st\<lparr>pending_approvals := pending_approvals st @ map (pending_for workflow_id) inserted\<rparr> \<and>
           (r = Inr () \<longrightarrow> inserted = filter (confidence_in [''low'', ''high'', ''medium'']) matches)"
  using assms
proof (induction matches arbitrary: st)
  case Nil
  then show ?case by auto
next
  case (Cons m matches)
  show ?case
  proof (cases "confidence_in [''low'', ''high'', ''medium''] m")
    case False
    with Cons show ?thesis by simp
  next
    case True
    show ?thesis
    proof (cases "add_pending_item_raises c st workflow_id m")
      case (Some e)
      with True Cons.prems have "r = Inl e" "st' = st"
        by (simp_all add: add_pending_item_def)
      then show ?thesis
        by (intro exI [of _ "[]"]) simp
    next
      case None
      let ?st1 = "st\<lparr>pending_approvals := pending_approvals st @ [pending_for workflow_id m]\<rparr>"
      from None True Cons.prems
      have "create_pending_approvals c workflow_id matches ?st1 = (r, st')"
        by (simp add: add_pending_item_def pending_for_def)
      from Cons.IH [OF this] obtain inserted where
        "prefix inserted (filter (confidence_in [''low'', ''high'', ''medium'']) matches)"
        "st' = ?st1\<lparr>pending_approvals := pending_approvals ?st1 @ map (pending_for workflow_id) inserted\<rparr>"
        "r = Inr () \<longrightarrow> inserted = filter (confidence_in [''low'', ''high'', ''medium'']) matches"
        by blast
      with True show ?thesis
        by (intro exI [of _ "m # inserted"]) simp
    qed
  qed
qed

section \<open>Properties of the background pipeline\<close>

lemma update_workflow_status_simps:
  "workflow_updates (update_workflow_status w s p g m st) = workflow_updates st @
     [\<lparr>su_workflow_id = w, su_status = s, su_progress = p, su_stage = g, su_message = m\<rparr>]"
  "results_files (update_workflow_status w s p g m st) = results_files st"
  "workflow_results (update_workflow_status w s p g m st) = workflow_results st"
  "pending_approvals (update_workflow_status w s p g m st) = pending_approvals st"
  by (simp_all add: update_workflow_status_def)

lemma update_workflow_status_in_try_cases:
  assumes "update_workflow_status_in_try c w s p g m st = (r, st')"
  shows "(\<exists>e. r = Inl e \<and> st' = st) \<or> (r = Inr () \<and> st' = update_workflow_status w s p g m st)"
  using assms by (auto simp: update_workflow_status_in_try_def split: option.splits)

lemma save_workflow_results_cases:
  assumes "save_workflow_results c workflow_id results summ st = (r, st')"
  shows "(\<exists>e. r = Inl e \<and> st' = st) \<or>
         (\<exists>e. r = Inl e \<and>
            st' = st\<lparr>results_files := (results_files st)(results_path workflow_id \<mapsto> (results, summ))\<rparr>) \<or>
         (r = Inr () \<and>
            st' = st\<lparr>results_files := (results_files st)(results_path workflow_id \<mapsto> (results, summ)),
                     workflow_results := workflow_results st @ [(workflow_id, results, summ)]\<rparr>)"
  using assms
  by (auto simp: save_workflow_results_def results_path_def Let_def split: option.splits)

text \<open>
  Every way the \<^verbatim>\<open>try\<close> block can end. Either it raises before the results file is written:
  then at most the first three status updates are recorded and nothing else has changed. Or
  the items were classified and summarised and the results file holds them: then the row
  may or may not have been added, the approvals inserted are a prefix of those due, and the
  block either raised after the third status update or has run to the end.
\<close>

lemma process_workflow_try_cases:
  assumes "process_workflow_try c workflow_id wi_path item_path mode st = (r, st')"
  shows "(isl r \<and>
          (\<exists>n\<in>{0, 1, 2, 3}.
             workflow_updates st' = workflow_updates st @ take n (stage_updates workflow_id)) \<and>
          results_files st' = results_files st \<and>
          workflow_results st' = workflow_results st \<and>
          pending_approvals st' = pending_approvals st) \<or>
         (\<exists>items summ inserted.
            run_classified_items c wi_path item_path = Inr items \<and>
            generate_summary (unicode_lower c) (PList items) mode = Inr summ \<and>
            prefix inserted (filter (confidence_in [''low'', ''high'', ''medium'']) items) \<and>
            results_files st' = (results_files st)(results_path workflow_id \<mapsto> (items, summ)) \<and>
            pending_approvals st' = pending_approvals st @ map (pending_for workflow_id) inserted \<and>
            ((isl r \<and>
              workflow_updates st' = workflow_updates st @ take 3 (stage_updates workflow_id) \<and>
              (workflow_results st' = workflow_results st \<and> inserted = [] \<or>
               workflow_results st' = workflow_results st @ [(workflow_id, items, summ)])) \<or>
             (r = Inr () \<and>
              workflow_updates st' = workflow_updates st @ stage_updates workflow_id \<and>
              workflow_results st' = workflow_results st @ [(workflow_id, items, summ)] \<and>
              inserted = filter (confidence_in [''low'', ''high'', ''medium'']) items)))"
  using assms unfolding process_workflow_try_def run_classified_items_def
  by (auto simp: stage_updates_def update_workflow_status_simps
      split: sum.splits prod.splits
      dest!: update_workflow_status_in_try_cases save_workflow_results_cases
        create_pending_approvals_cases)

lemma isl_not_Inr: "isl r \<Longrightarrow> r \<noteq> Inr u"
  by auto

lemma process_workflow_try_updates:
  assumes "process_workflow_try c workflow_id wi_path item_path mode st = (r, st')"
  shows "case r of
           Inr u \<Rightarrow> workflow_updates st' = workflow_updates st @ stage_updates workflow_id
         | Inl e \<Rightarrow>
             (\<exists>n\<in>{0, 1, 2, 3}.
                workflow_updates st' = workflow_updates st @ take n (stage_updates workflow_id))"
  using process_workflow_try_cases [OF assms]
  by (cases r) auto

lemma run_items_classified:
  assumes "run_classified_items c wi_path item_path = Inr items"
  shows "\<exists>raw_items pn_set name_set. classify_all raw_items pn_set name_set = Inr items"
  using assms
  by (auto simp: run_classified_items_def extract_and_classify_items_def split: sum.splits)

text \<open>The example run, step by step.\<close>

lemma example_translation: "translate_to_english offline_gateway text = Inr text"
  by (simp add: translate_to_english_def translate_try_def call_api_def offline_gateway_def)

lemma example_extraction: "extract_all_items one_item_gateway text = Inr [PDict []]"
  by (simp add: extract_all_items_def extract_all_items_try_def call_api_def one_item_gateway_def
        message_content_def extract_json_from_markdown_def)

lemma example_classification: "classify_all [PDict []] {} {} = Inr [unmatched_item]"
  by (simp add: apply_classification_logic_def unmatched_item_def)

lemma example_items:
  "run_classified_items example_collaborators wi_path None = Inr [unmatched_item]"
  "run_classified_items completion_fails wi_path None = Inr [unmatched_item]"
  by (simp_all add: run_classified_items_def example_collaborators_def completion_fails_def
        example_translation example_extraction example_classification parse_if_given_def
        extract_and_classify_items_def
      del: classify_all.simps)

lemma example_summary:
  "generate_summary ul (PList [unmatched_item]) mode =
     Inr \<lparr>total_materials = 1, successful_matches = 0, knowledge_base_matches = 0,
          comparison_mode = mode\<rparr>"
proof -
  have "\<not> has_confidence ''high'' unmatched_item"
    by (simp add: has_confidence_def unmatched_item_def)
  with classified_summary(5) [OF example_classification, of ul mode] show ?thesis
    by simp
qed

lemma example_confidence: "confidence_in [''low'', ''high'', ''medium''] unmatched_item"
  by (simp add: confidence_in_def unmatched_item_def)

lemma example_run:
  "process_workflow_try example_collaborators ''wf-1'' ''uploads/wf-1/wi.pdf'' None ''kb_only''
     empty_store =
   (Inr (),
    \<lparr>workflow_updates = stage_updates ''wf-1'',
     results_files = [results_path ''wf-1'' \<mapsto>
       ([unmatched_item],
        \<lparr>total_materials = 1, successful_matches = 0, knowledge_base_matches = 0,
         comparison_mode = ''kb_only''\<rparr>)],
     workflow_results =
       [(''wf-1'', [unmatched_item],
         \<lparr>total_materials = 1, successful_matches = 0, knowledge_base_matches = 0,
          comparison_mode = ''kb_only''\<rparr>)],
     pending_approvals = [pending_for ''wf-1'' unmatched_item]\<rparr>)"
  by (simp add: process_workflow_try_def example_collaborators_def empty_store_def
        update_workflow_status_in_try_def update_workflow_status_def parse_if_given_def
        example_translation example_extraction example_classification example_summary
        example_confidence extract_and_classify_items_def save_workflow_results_def
        add_pending_item_def stage_updates_def results_path_def pending_for_def
      del: classify_all.simps)

lemma example_failing_run:
  "process_workflow_try completion_fails ''wf-1'' ''uploads/wf-1/wi.pdf'' None ''kb_only''
     empty_store =
   (Inl (OtherError ''database is locked''),
    \<lparr>workflow_updates = take 3 (stage_updates ''wf-1''),
     results_files = [results_path ''wf-1'' \<mapsto>
       ([unmatched_item],
        \<lparr>total_materials = 1, successful_matches = 0, knowledge_base_matches = 0,
         comparison_mode = ''kb_only''\<rparr>)],
     workflow_results =
       [(''wf-1'', [unmatched_item],
         \<lparr>total_materials = 1, successful_matches = 0, knowledge_base_matches = 0,
          comparison_mode = ''kb_only''\<rparr>)],
     pending_approvals = [pending_for ''wf-1'' unmatched_item]\<rparr>)"
  by (simp add: process_workflow_try_def completion_fails_def example_collaborators_def
        empty_store_def
        update_workflow_status_in_try_def update_workflow_status_def parse_if_given_def
        example_translation example_extraction example_classification example_summary
        example_confidence extract_and_classify_items_def save_workflow_results_def
        add_pending_item_def stage_updates_def results_path_def pending_for_def
      del: classify_all.simps)

section \<open>The summary in the results artifact\<close>



section \<open>The pending approvals of a run\<close>

text \<open>
  Claim C8. \<^verbatim>\<open>_create_pending_approvals\<close> inserts, in the order of the items, one
  PendingApproval for an item whose confidence level is "low", "medium" or "high" and none
  for any other; it inserts them all unless an insertion raises. The persist stage of a run
  calls it on the classified items of the run: a run that completes has created exactly one
  PendingApproval for every classified item, all of which have the confidence "low" or
  "high", and a run that fails has created them for a prefix of the classified items.
\<close>

theorem one_pending_approval_per_item:
  "(create_pending_approvals c workflow_id matches st\<^sub>0 = (r\<^sub>0, st\<^sub>1) \<longrightarrow>
      (\<exists>inserted.
         prefix inserted
           (filter (\<lambda>item. has_confidence ''low'' item \<or> has_confidence ''high'' item \<or>
                            has_confidence ''medium'' item) matches) \<and>
         pending_approvals st\<^sub>1 = pending_approvals st\<^sub>0 @ map (pending_for workflow_id) inserted \<and>
         (r\<^sub>0 = Inr () \<longrightarrow>
            inserted = filter (\<lambda>item. has_confidence ''low'' item \<or> has_confidence ''high'' item \<or>
                                       has_confidence ''medium'' item) matches))) \<and>
   (classify_all raw_items pn_set name_set = Inr items \<longrightarrow>
      filter (\<lambda>item. has_confidence ''low'' item \<or> has_confidence ''high'' item \<or>
                      has_confidence ''medium'' item) items = items) \<and>
   (process_workflow_try c workflow_id wi_path item_path mode st = (r, st') \<longrightarrow>
      (\<exists>inserted.
         pending_approvals st' = pending_approvals st @ map (pending_for workflow_id) inserted \<and>
         (inserted = [] \<or>
          (\<exists>run_items. run_classified_items c wi_path item_path = Inr run_items \<and>
                        prefix inserted run_items)) \<and>
         (r = Inr () \<longrightarrow>
            run_classified_items c wi_path item_path = Inr inserted \<and>
            list_all (\<lambda>item. has_confidence ''low'' item \<or> has_confidence ''high'' item) inserted)))"
proof (intro conjI impI)
  assume "create_pending_approvals c workflow_id matches st\<^sub>0 = (r\<^sub>0, st\<^sub>1)"
  from create_pending_approvals_cases [OF this]
  show "\<exists>inserted.
         prefix inserted
           (filter (\<lambda>item. has_confidence ''low'' item \<or> has_confidence ''high'' item \<or>
                            has_confidence ''medium'' item) matches) \<and>
         pending_approvals st\<^sub>1 = pending_approvals st\<^sub>0 @ map (pending_for workflow_id) inserted \<and>
         (r\<^sub>0 = Inr () \<longrightarrow>
            inserted = filter (\<lambda>item. has_confidence ''low'' item \<or> has_confidence ''high'' item \<or>
                                       has_confidence ''medium'' item) matches)"
    unfolding confidence_in_any by auto
next
  assume "classify_all raw_items pn_set name_set = Inr items"
  from classified_summary(2) [OF this]
  show "filter (\<lambda>item. has_confidence ''low'' item \<or> has_confidence ''high'' item \<or>
                      has_confidence ''medium'' item) items = items"
    by (auto simp: filter_id_conv list_all_iff)
next
  assume t: "process_workflow_try c workflow_id wi_path item_path mode st = (r, st')"
  from process_workflow_try_cases [OF t]
  consider "isl r" "pending_approvals st' = pending_approvals st"
    | run_items inserted where "run_classified_items c wi_path item_path = Inr run_items"
        "prefix inserted (filter (confidence_in [''low'', ''high'', ''medium'']) run_items)"
        "pending_approvals st' = pending_approvals st @ map (pending_for workflow_id) inserted"
        "r = Inr () \<longrightarrow> inserted = filter (confidence_in [''low'', ''high'', ''medium'']) run_items"
    using isl_not_Inr [of r "()"] by (elim disjE exE conjE) blast+
  then show "\<exists>inserted.
         pending_approvals st' = pending_approvals st @ map (pending_for workflow_id) inserted \<and>
         (inserted = [] \<or>
          (\<exists>run_items. run_classified_items c wi_path item_path = Inr run_items \<and>
                        prefix inserted run_items)) \<and>
         (r = Inr () \<longrightarrow>
            run_classified_items c wi_path item_path = Inr inserted \<and>
            list_all (\<lambda>item. has_confidence ''low'' item \<or> has_confidence ''high'' item) inserted)"
  proof cases
    case 1
    then show ?thesis
      by (intro exI [of _ "[]"]) auto
  next
    case 2
    from run_items_classified [OF 2(1)] obtain raw_items pn_set name_set where
      cl: "classify_all raw_items pn_set name_set = Inr run_items"
      by blast
    from classified_summary(2) [OF cl]
    have lh: "list_all (\<lambda>item. has_confidence ''low'' item \<or> has_confidence ''high'' item) run_items"
      .
    then have f: "filter (confidence_in [''low'', ''high'', ''medium'']) run_items = run_items"
      by (auto simp: confidence_in_any filter_id_conv list_all_iff)
    from 2 f lh show ?thesis
      by (intro exI [of _ inserted]) auto
  qed
qed

theorem one_pending_approval_per_item_witness:
  "\<exists>st'.
     process_workflow_try example_collaborators ''wf-1'' ''uploads/wf-1/wi.pdf'' None ''kb_only''
       empty_store = (Inr (), st') \<and>
     run_classified_items example_collaborators ''uploads/wf-1/wi.pdf'' None = Inr [unmatched_item] \<and>
     pending_approvals st' = [pending_for ''wf-1'' unmatched_item] \<and>
     create_pending_approvals example_collaborators ''wf-1'' [unmatched_item, PStr ''stray''] empty_store
       = (Inr (), empty_store\<lparr>pending_approvals := [pending_for ''wf-1'' unmatched_item]\<rparr>)"
proof -
  obtain st' where t: "process_workflow_try example_collaborators ''wf-1'' ''uploads/wf-1/wi.pdf''
      None ''kb_only'' empty_store = (Inr (), st')"
    using example_run by blast
  from one_pending_approval_per_item [THEN conjunct2, THEN conjunct2, rule_format, OF t]
  obtain inserted where
    "pending_approvals st' = pending_approvals empty_store @ map (pending_for ''wf-1'') inserted"
    "run_classified_items example_collaborators ''uploads/wf-1/wi.pdf'' None = Inr inserted"
    by auto
  then have p: "pending_approvals st' = [pending_for ''wf-1'' unmatched_item]"
    by (auto simp: example_items empty_store_def)
  have n: "\<not> confidence_in [''low'', ''high'', ''medium''] (PStr ''stray'')"
    by (simp add: confidence_in_def)
  have c: "create_pending_approvals example_collaborators ''wf-1'' [unmatched_item, PStr ''stray'']
      empty_store = (Inr (), empty_store\<lparr>pending_approvals := [pending_for ''wf-1'' unmatched_item]\<rparr>)"
    by (simp add: example_confidence n add_pending_item_def example_collaborators_def
          empty_store_def pending_for_def)
  from t p c example_items(1) show ?thesis
    by blast
qed

section \<open>Failure and progress of a run\<close>

text \<open>
  Claim C4. When the \<^verbatim>\<open>try\<close> block of the background task raises an exception \<open>e\<close>, leaving
  the store \<open>st\<^sub>f\<close>, the task ends with the status "error" and a message built from \<open>e\<close>. The
  status updates of the run are the stage transitions made before the failure, at most the
  first three, followed by the error update: no later stage runs, none runs twice, and
  "completed" is never recorded. The results files, the result rows and the pending
  approvals are those of \<open>st\<^sub>f\<close>, and \<open>st\<^sub>f\<close> has kept what there was before the run and what
  the run persisted before the failure: nothing is rolled back.
\<close>

theorem failure_ends_in_error:
  assumes "process_workflow_try c workflow_id wi_path item_path mode st = (Inl e, st\<^sub>f)"
  shows "process_workflow_async c workflow_id wi_path item_path mode st =
           update_workflow_status workflow_id ''error'' None None (Some (ProcessingFailed e)) st\<^sub>f \<and>
         last (workflow_updates (process_workflow_async c workflow_id wi_path item_path mode st))
           = error_update workflow_id e \<and>
         (\<exists>n\<in>{0, 1, 2, 3}.
            workflow_updates (process_workflow_async c workflow_id wi_path item_path mode st)
              = workflow_updates st @ take n (stage_updates workflow_id) @ [error_update workflow_id e]) \<and>
         results_files (process_workflow_async c workflow_id wi_path item_path mode st)
           = results_files st\<^sub>f \<and>
         workflow_results (process_workflow_async c workflow_id wi_path item_path mode st)
           = workflow_results st\<^sub>f \<and>
         pending_approvals (process_workflow_async c workflow_id wi_path item_path mode st)
           = pending_approvals st\<^sub>f \<and>
         (results_files st\<^sub>f = results_files st \<or>
          (\<exists>doc. results_files st\<^sub>f = (results_files st)(results_path workflow_id \<mapsto> doc))) \<and>
         prefix (workflow_results st) (workflow_results st\<^sub>f) \<and>
         prefix (pending_approvals st) (pending_approvals st\<^sub>f)"
proof -
  have a: "process_workflow_async c workflow_id wi_path item_path mode st =
      update_workflow_status workflow_id ''error'' None None (Some (ProcessingFailed e)) st\<^sub>f"
    using assms by (simp add: process_workflow_async_def)
  from process_workflow_try_updates [OF assms]
  have u: "\<exists>n\<in>{0, 1, 2, 3}. workflow_updates st\<^sub>f = workflow_updates st @ take n (stage_updates workflow_id)"
    by simp
  from process_workflow_try_cases [OF assms]
  have k: "(results_files st\<^sub>f = results_files st \<or>
          (\<exists>doc. results_files st\<^sub>f = (results_files st)(results_path workflow_id \<mapsto> doc))) \<and>
         prefix (workflow_results st) (workflow_results st\<^sub>f) \<and>
         prefix (pending_approvals st) (pending_approvals st\<^sub>f)"
    by (elim disjE exE conjE) auto
  from u k show ?thesis
    unfolding a by (auto simp: update_workflow_status_simps error_update_def)
qed

theorem failure_ends_in_error_witness:
  "\<exists>st\<^sub>f.
     process_workflow_try completion_fails ''wf-1'' ''uploads/wf-1/wi.pdf'' None ''kb_only''
       empty_store = (Inl (OtherError ''database is locked''), st\<^sub>f) \<and>
     results_files st\<^sub>f (results_path ''wf-1'') \<noteq> None \<and>
     length (workflow_results st\<^sub>f) = 1 \<and>
     pending_approvals st\<^sub>f = [pending_for ''wf-1'' unmatched_item] \<and>
     last (workflow_updates (process_workflow_async completion_fails ''wf-1''
             ''uploads/wf-1/wi.pdf'' None ''kb_only'' empty_store))
       = error_update ''wf-1'' (OtherError ''database is locked'') \<and>
     results_files (process_workflow_async completion_fails ''wf-1''
             ''uploads/wf-1/wi.pdf'' None ''kb_only'' empty_store) = results_files st\<^sub>f \<and>
     workflow_results (process_workflow_async completion_fails ''wf-1''
             ''uploads/wf-1/wi.pdf'' None ''kb_only'' empty_store) = workflow_results st\<^sub>f \<and>
     pending_approvals (process_workflow_async completion_fails ''wf-1''
             ''uploads/wf-1/wi.pdf'' None ''kb_only'' empty_store)
       = [pending_for ''wf-1'' unmatched_item]"
proof -
  obtain st\<^sub>f where
    f: "process_workflow_try completion_fails ''wf-1'' ''uploads/wf-1/wi.pdf'' None ''kb_only''
          empty_store = (Inl (OtherError ''database is locked''), st\<^sub>f)"
    and r: "results_files st\<^sub>f (results_path ''wf-1'') \<noteq> None"
      "length (workflow_results st\<^sub>f) = 1"
      "pending_approvals st\<^sub>f = [pending_for ''wf-1'' unmatched_item]"
    using example_failing_run by simp
  note x = failure_ends_in_error [OF f]
  from x have "pending_approvals (process_workflow_async completion_fails ''wf-1''
             ''uploads/wf-1/wi.pdf'' None ''kb_only'' empty_store) = pending_approvals st\<^sub>f"
    by blast
  with r(3) have p: "pending_approvals (process_workflow_async completion_fails ''wf-1''
             ''uploads/wf-1/wi.pdf'' None ''kb_only'' empty_store)
       = [pending_for ''wf-1'' unmatched_item]"
    by simp
  from x f r p show ?thesis
    by blast
qed

lemma observed_prefixes:
  assumes "us = stage_updates workflow_id \<or>
           us = [error_update workflow_id e] \<or>
           us = take 1 (stage_updates workflow_id) @ [error_update workflow_id e] \<or>
           us = take 2 (stage_updates workflow_id) @ [error_update workflow_id e] \<or>
           us = take 3 (stage_updates workflow_id) @ [error_update workflow_id e]"
    and "prefix p us" and "p \<noteq> []"
  shows "progress_consistent p" and "p \<noteq> us \<Longrightarrow> su_status (last p) = ''processing''"
  using assms
  by (auto simp: prefix_Cons stage_updates_def error_update_def progress_consistent_def
        progress_written_def stage_progress_def)

text \<open>
  Claim C5. A run appends a non-empty sequence of status updates that ends in the status
  "completed" or "error". At every moment of the run, the updates written so far are
  consistent: their progress values are non-decreasing (10 at extracting, 30 at translating,
  50 at classifying, 100 at completed), the last value is 100 exactly when the status is
  "completed", and every value is below 100 while the status is "error" or "processing";
  before the last update the status is "processing".
\<close>

theorem progress_is_monotone:
  "\<exists>us. workflow_updates (process_workflow_async c workflow_id wi_path item_path mode st)
           = workflow_updates st @ us \<and>
         us \<noteq> [] \<and>
         (su_status (last us) = ''completed'' \<or> su_status (last us) = ''error'') \<and>
         (\<forall>p. prefix p us \<and> p \<noteq> [] \<longrightarrow>
              progress_consistent p \<and> (p \<noteq> us \<longrightarrow> su_status (last p) = ''processing''))"
proof -
  obtain r st' where t: "process_workflow_try c workflow_id wi_path item_path mode st = (r, st')"
    by (cases "process_workflow_try c workflow_id wi_path item_path mode st")
  have "\<exists>us e. workflow_updates (process_workflow_async c workflow_id wi_path item_path mode st)
           = workflow_updates st @ us \<and>
         (us = stage_updates workflow_id \<or>
          us = [error_update workflow_id e] \<or>
          us = take 1 (stage_updates workflow_id) @ [error_update workflow_id e] \<or>
          us = take 2 (stage_updates workflow_id) @ [error_update workflow_id e] \<or>
          us = take 3 (stage_updates workflow_id) @ [error_update workflow_id e])"
  proof (cases r)
    case (Inr u)
    with process_workflow_try_updates [OF t] t show ?thesis
      by (auto simp: process_workflow_async_def)
  next
    case (Inl e)
    with process_workflow_try_updates [OF t] t show ?thesis
      by (auto simp: process_workflow_async_def update_workflow_status_simps error_update_def)
  qed
  then obtain us e where
    w: "workflow_updates (process_workflow_async c workflow_id wi_path item_path mode st)
          = workflow_updates st @ us"
    and us: "us = stage_updates workflow_id \<or>
          us = [error_update workflow_id e] \<or>
          us = take 1 (stage_updates workflow_id) @ [error_update workflow_id e] \<or>
          us = take 2 (stage_updates workflow_id) @ [error_update workflow_id e] \<or>
          us = take 3 (stage_updates workflow_id) @ [error_update workflow_id e]"
    by blast
  from us have "us \<noteq> []"
    and "su_status (last us) = ''completed'' \<or> su_status (last us) = ''error''"
    by (auto simp: stage_updates_def error_update_def)
  with w observed_prefixes [OF us] show ?thesis
    by blast
qed

theorem progress_is_monotone_witness:
  "prefix (take 2 (stage_updates ''wf-1''))
     (workflow_updates (process_workflow_async example_collaborators ''wf-1''
        ''uploads/wf-1/wi.pdf'' None ''kb_only'' empty_store)) \<and>
   take 2 (stage_updates ''wf-1'') \<noteq> [] \<and>
   progress_consistent (take 2 (stage_updates ''wf-1'')) \<and>
   su_status (last (take 2 (stage_updates ''wf-1''))) = ''processing''"
proof -
  have run: "workflow_updates (process_workflow_async example_collaborators ''wf-1''
               ''uploads/wf-1/wi.pdf'' None ''kb_only'' empty_store) = stage_updates ''wf-1''"
    by (simp add: process_workflow_async_def example_run)
  from progress_is_monotone [of example_collaborators "''wf-1''" "''uploads/wf-1/wi.pdf''" None
      "''kb_only''" empty_store]
  obtain us where
    u: "workflow_updates (process_workflow_async example_collaborators ''wf-1''
          ''uploads/wf-1/wi.pdf'' None ''kb_only'' empty_store) = workflow_updates empty_store @ us"
    and p: "\<forall>p. prefix p us \<and> p \<noteq> [] \<longrightarrow>
              progress_consistent p \<and> (p \<noteq> us \<longrightarrow> su_status (last p) = ''processing'')"
    by blast
  from u run have us: "us = stage_updates ''wf-1''"
    by (simp add: empty_store_def)
  have h1: "prefix (take 2 (stage_updates ''wf-1'')) us"
    unfolding us by (rule take_is_prefix)
  have h2: "take 2 (stage_updates ''wf-1'') \<noteq> []" and h3: "take 2 (stage_updates ''wf-1'') \<noteq> us"
    unfolding us by (simp_all add: stage_updates_def)
  from p h1 h2 h3 have "progress_consistent (take 2 (stage_updates ''wf-1''))"
    and "su_status (last (take 2 (stage_updates ''wf-1''))) = ''processing''"
    by blast+
  with h1 h2 show ?thesis
    unfolding us run by simp
qed

end
